theory Spec2Isabelle
  imports Main "HOL-Library.Word"
begin

section \<open>JavaScript strings\<close>

text \<open>
  A JavaScript string is a sequence of UTF-16 code units, and \<open>.length\<close> counts code
  units. String constants of the source are written as HOL literals and converted with
  \<open>js\<close>.
\<close>

type_synonym jsstring = "16 word list"

definition js :: "string \<Rightarrow> jsstring" where
  "js s = map (\<lambda>c. of_nat (of_char c)) s"

text \<open>
  \<open>String.prototype.trim\<close> strips the ECMAScript WhiteSpace and LineTerminator code
  points from both ends: TAB, LF, VT, FF, CR, SP, NBSP, U+1680, U+2000..U+200A, U+2028,
  U+2029, U+202F, U+205F, U+3000 and U+FEFF. All of them are single code units.
\<close>

definition is_white_space :: "16 word \<Rightarrow> bool" where
  "is_white_space c =
     (let n = unat c in
        n = 0x09 \<or> n = 0x0A \<or> n = 0x0B \<or> n = 0x0C \<or> n = 0x0D \<or> n = 0x20 \<or> n = 0xA0
      \<or> n = 0x1680 \<or> (0x2000 \<le> n \<and> n \<le> 0x200A) \<or> n = 0x2028 \<or> n = 0x2029
      \<or> n = 0x202F \<or> n = 0x205F \<or> n = 0x3000 \<or> n = 0xFEFF)"

definition trim_start :: "jsstring \<Rightarrow> jsstring" where
  "trim_start s = dropWhile is_white_space s"

definition trim_end :: "jsstring \<Rightarrow> jsstring" where
  "trim_end s = rev (dropWhile is_white_space (rev s))"

definition trim :: "jsstring \<Rightarrow> jsstring" where
  "trim s = trim_end (trim_start s)"

text \<open>Truthiness of a \<open>string | undefined | null\<close> value: present and not empty.\<close>

definition truthy :: "jsstring option \<Rightarrow> bool" where
  "truthy v = (case v of None \<Rightarrow> False | Some s \<Rightarrow> s \<noteq> [])"

text \<open>The value behind a truthiness test that passed.\<close>

definition present :: "jsstring option \<Rightarrow> jsstring option" where
  "present v = (if truthy v then v else None)"

text \<open>\<open>a || b\<close> on such a value with a string default.\<close>

definition or_else :: "jsstring option \<Rightarrow> jsstring \<Rightarrow> jsstring" where
  "or_else v d = (case v of None \<Rightarrow> d | Some s \<Rightarrow> if s \<noteq> [] then s else d)"

text \<open>\<open>s || null\<close> on a string.\<close>

definition or_null :: "jsstring \<Rightarrow> jsstring option" where
  "or_null s = (if s \<noteq> [] then Some s else None)"


section \<open>Authentication server configuration (lib/auth-server.ts)\<close>

text \<open>
  \<open>process.env\<close> is a lookup from variable names to strings; a variable that is not
  defined, or defined as the empty string, is falsy.
\<close>

type_synonym process_env = "string \<rightharpoonup> jsstring"

definition getBaseUrl :: "process_env \<Rightarrow> jsstring" where
  "getBaseUrl env =
     (case present (env ''NEXT_PUBLIC_APP_URL'') of
        Some appUrl \<Rightarrow> appUrl
      | None \<Rightarrow>
          (case present (env ''VERCEL_URL'') of
             Some vercelUrl \<Rightarrow> js ''https://'' @ vercelUrl
           | None \<Rightarrow> js ''http://localhost:3000''))"

record email_and_password =
  enabled :: bool
  minPasswordLength :: nat

record jwt_options =
  expirationTime :: jsstring
  issuer :: jsstring
  audience :: jsstring

text \<open>
  An entry of \<open>trustedOrigins\<close> is an exact string or the one regular expression of the
  source, \<open>https://frontend-.*-zeeshan-tariqs-projects.vercel.app\<close>.
\<close>

datatype origin = Exact jsstring | PreviewPattern

record auth_options =
  secret :: "jsstring option"
  connectionString :: "jsstring option"
  emailAndPassword :: email_and_password
  jwt_plugin :: jwt_options
  trustedOrigins :: "origin list"

definition auth :: "process_env \<Rightarrow> auth_options" where
  "auth env =
     (let baseUrl = getBaseUrl env in
      \<lparr> secret = env ''BETTER_AUTH_SECRET'',
        connectionString = env ''DATABASE_URL'',
        emailAndPassword = \<lparr> enabled = True, minPasswordLength = 8 \<rparr>,
        jwt_plugin = \<lparr> expirationTime = js ''7d'', issuer = baseUrl, audience = baseUrl \<rparr>,
        trustedOrigins =
          [ Exact (or_else (env ''NEXT_PUBLIC_API_URL'') (js ''http://localhost:8000'')),
            Exact (js ''http://localhost:3000''),
            Exact (js ''https://frontend-zeeshan-tariqs-projects.vercel.app''),
            Exact (js ''https://frontend-eight-psi-iunua3v2s0.vercel.app''),
            PreviewPattern ] \<rparr>)"


section \<open>Entities and request bodies (lib/types.ts)\<close>

record task =
  task_id :: jsstring
  title :: jsstring
  description :: "jsstring option"
  completed :: bool
  created_at :: jsstring
  updated_at :: jsstring

text \<open>\<open>TaskCreate\<close>: \<open>description\<close> is a string or \<open>null\<close> (\<open>None\<close>).\<close>

record task_create =
  tc_title :: jsstring
  tc_description :: "jsstring option"

text \<open>
  \<open>TaskUpdate\<close>: both fields may be absent (outer \<open>None\<close>); a present description is a
  string or \<open>null\<close>.
\<close>

record task_update =
  tu_title :: "jsstring option"
  tu_description :: "jsstring option option"


section \<open>The API client seen from the components\<close>

text \<open>
  The error taxonomy of the application. A rejected API promise carries the kind of the
  failure and \<open>err.response?.data?.detail\<close>, the only part of the error a handler reads.
  The handler reads it through a cast of \<open>unknown\<close>, so it is whatever the response body
  holds: a string (\<open>ApiError\<close> of lib/types.ts), the array of field issues of a
  validation failure (\<open>ValidationError\<close> of lib/types.ts), or nothing.
\<close>

datatype error_kind =
  ValidationError | AuthError | AuthorizationError | NotFoundError | NetworkError

record validation_issue =
  loc :: "jsstring list"
  msg :: jsstring
  issue_type :: jsstring

datatype detail_value = DetailString jsstring | DetailIssues "validation_issue list"

record api_error =
  kind :: error_kind
  detail :: "detail_value option"

text \<open>
  \<open>detail || fallback\<close>: a missing detail and the empty string are falsy; an array is an
  object and so truthy, also when it is empty.
\<close>

definition detail_or :: "detail_value option \<Rightarrow> jsstring \<Rightarrow> detail_value" where
  "detail_or v d =
     (case v of
        None \<Rightarrow> DetailString d
      | Some (DetailString s) \<Rightarrow> if s \<noteq> [] then DetailString s else DetailString d
      | Some (DetailIssues issues) \<Rightarrow> DetailIssues issues)"

text \<open>Whether a state variable declared \<open>string | null\<close> holds a string that is not empty.\<close>

definition is_error_string :: "detail_value option \<Rightarrow> bool" where
  "is_error_string v = (case v of Some (DetailString s) \<Rightarrow> s \<noteq> [] | _ \<Rightarrow> False)"

text \<open>
  \<open>taskApi\<close> is imported from \<open>lib/api-client\<close> and is a parameter of the model: each
  operation maps the state of whatever serves the requests to a rejected (\<open>Inl\<close>) or
  resolved (\<open>Inr\<close>) promise and the next state of the server.
\<close>

record 'srv task_api =
  listTasks :: "jsstring \<Rightarrow> 'srv \<Rightarrow> (api_error + task list) \<times> 'srv"
  createTask :: "jsstring \<Rightarrow> task_create \<Rightarrow> 'srv \<Rightarrow> (api_error + task) \<times> 'srv"
  toggleComplete :: "jsstring \<Rightarrow> jsstring \<Rightarrow> 'srv \<Rightarrow> (api_error + task) \<times> 'srv"
  updateTask :: "jsstring \<Rightarrow> jsstring \<Rightarrow> task_update \<Rightarrow> 'srv \<Rightarrow> (api_error + task) \<times> 'srv"
  deleteTask :: "jsstring \<Rightarrow> jsstring \<Rightarrow> 'srv \<Rightarrow> (api_error + unit) \<times> 'srv"

datatype api_call =
  ListTasks jsstring
| CreateTask jsstring task_create
| ToggleComplete jsstring jsstring
| UpdateTask jsstring jsstring task_update
| DeleteTask jsstring jsstring

text \<open>
  What lies outside the React state: the server, the trace of the API operations invoked
  so far, and the lines written with \<open>console.error\<close>.
\<close>

record 'srv env =
  server :: 'srv
  calls :: "api_call list"
  console :: "(jsstring \<times> api_error) list"

definition invoke :: "api_call \<Rightarrow> ('srv \<Rightarrow> 'r \<times> 'srv) \<Rightarrow> 'srv env \<Rightarrow> 'r \<times> 'srv env" where
  "invoke c f e = (case f (server e) of (r, s') \<Rightarrow> (r, e\<lparr>server := s', calls := calls e @ [c]\<rparr>))"

definition console_error :: "jsstring \<Rightarrow> api_error \<Rightarrow> 'srv env \<Rightarrow> 'srv env" where
  "console_error label err e = e\<lparr>console := console e @ [(label, err)]\<rparr>"

text \<open>An \<open>async\<close> handler returning \<open>Promise<void>\<close> resolves or rejects.\<close>

datatype outcome = Returned | Threw api_error


section \<open>Dashboard page (app/dashboard/page.tsx)\<close>

text \<open>
  \<open>createError\<close> is declared \<open>string | null\<close>, but \<open>handleCreateTask\<close> stores the detail of
  a rejection in it unchecked, so it holds any detail value.
\<close>

record dashboard =
  tasks :: "task list"
  isLoading :: bool
  error :: "jsstring option"
  isCreating :: bool
  createError :: "detail_value option"

definition initial_dashboard :: dashboard where
  "initial_dashboard =
     \<lparr> tasks = [], isLoading = True, error = None, isCreating = False, createError = None \<rparr>"

text \<open>
  \<open>userId\<close> is \<open>session?.user?.id\<close>. Every handler starts with \<open>if (!userId) return\<close>,
  written here as a case on \<open>present userId\<close>.
\<close>

definition fetchTasks ::
  "'srv task_api \<Rightarrow> jsstring option \<Rightarrow> 'srv env \<times> dashboard \<Rightarrow> outcome \<times> 'srv env \<times> dashboard" where
  "fetchTasks api userId w =
     (case w of (e, d) \<Rightarrow>
        (case present userId of
           None \<Rightarrow> (Returned, e, d)
         | Some uid \<Rightarrow>
             (let d1 = d\<lparr>isLoading := True, error := None\<rparr> in
              case invoke (ListTasks uid) (listTasks api uid) e of
                (Inr fetchedTasks, e1) \<Rightarrow>
                  (Returned, e1, d1\<lparr>tasks := fetchedTasks, isLoading := False\<rparr>)
              | (Inl err, e1) \<Rightarrow>
                  (Returned, console_error (js ''Failed to fetch tasks:'') err e1,
                   d1\<lparr>error := Some (js ''Failed to load tasks. Please try again.''),
                      isLoading := False\<rparr>))))"

definition handleCreateTask ::
  "'srv task_api \<Rightarrow> jsstring option \<Rightarrow> jsstring \<Rightarrow> jsstring option \<Rightarrow>
     'srv env \<times> dashboard \<Rightarrow> outcome \<times> 'srv env \<times> dashboard" where
  "handleCreateTask api userId ttl descr w =
     (case w of (e, d) \<Rightarrow>
        (case present userId of
           None \<Rightarrow> (Returned, e, d)
         | Some uid \<Rightarrow>
             (let d1 = d\<lparr>isCreating := True, createError := None\<rparr>;
                  body = \<lparr>tc_title = ttl, tc_description = descr\<rparr> in
              case invoke (CreateTask uid body) (createTask api uid body) e of
                (Inr newTask, e1) \<Rightarrow>
                  (Returned, e1, d1\<lparr>tasks := newTask # tasks d1, isCreating := False\<rparr>)
              | (Inl err, e1) \<Rightarrow>
                  (Threw err, console_error (js ''Failed to create task:'') err e1,
                   d1\<lparr>createError := Some (detail_or (detail err) (js ''Failed to create task'')),
                      isCreating := False\<rparr>))))"

definition handleToggleComplete ::
  "'srv task_api \<Rightarrow> jsstring option \<Rightarrow> jsstring \<Rightarrow>
     'srv env \<times> dashboard \<Rightarrow> outcome \<times> 'srv env \<times> dashboard" where
  "handleToggleComplete api userId taskId w =
     (case w of (e, d) \<Rightarrow>
        (case present userId of
           None \<Rightarrow> (Returned, e, d)
         | Some uid \<Rightarrow>
             (case invoke (ToggleComplete uid taskId) (toggleComplete api uid taskId) e of
                (Inr updatedTask, e1) \<Rightarrow>
                  (Returned, e1,
                   d\<lparr>tasks := map (\<lambda>t. if task_id t = taskId then updatedTask else t) (tasks d)\<rparr>)
              | (Inl err, e1) \<Rightarrow>
                  (Returned, console_error (js ''Failed to toggle task:'') err e1,
                   d\<lparr>error := Some (js ''Failed to update task. Please try again.'')\<rparr>))))"

definition handleUpdateTask ::
  "'srv task_api \<Rightarrow> jsstring option \<Rightarrow> jsstring \<Rightarrow> jsstring \<Rightarrow> jsstring option \<Rightarrow>
     'srv env \<times> dashboard \<Rightarrow> outcome \<times> 'srv env \<times> dashboard" where
  "handleUpdateTask api userId taskId ttl descr w =
     (case w of (e, d) \<Rightarrow>
        (case present userId of
           None \<Rightarrow> (Returned, e, d)
         | Some uid \<Rightarrow>
             (let body = \<lparr>tu_title = Some ttl, tu_description = Some descr\<rparr> in
              case invoke (UpdateTask uid taskId body) (updateTask api uid taskId body) e of
                (Inr updatedTask, e1) \<Rightarrow>
                  (Returned, e1,
                   d\<lparr>tasks := map (\<lambda>t. if task_id t = taskId then updatedTask else t) (tasks d)\<rparr>)
              | (Inl err, e1) \<Rightarrow>
                  (Threw err, console_error (js ''Failed to update task:'') err e1,
                   d\<lparr>error := Some (js ''Failed to update task. Please try again.'')\<rparr>))))"

definition handleDeleteTask ::
  "'srv task_api \<Rightarrow> jsstring option \<Rightarrow> jsstring \<Rightarrow>
     'srv env \<times> dashboard \<Rightarrow> outcome \<times> 'srv env \<times> dashboard" where
  "handleDeleteTask api userId taskId w =
     (case w of (e, d) \<Rightarrow>
        (case present userId of
           None \<Rightarrow> (Returned, e, d)
         | Some uid \<Rightarrow>
             (case invoke (DeleteTask uid taskId) (deleteTask api uid taskId) e of
                (Inr _, e1) \<Rightarrow>
                  (Returned, e1, d\<lparr>tasks := filter (\<lambda>t. task_id t \<noteq> taskId) (tasks d)\<rparr>)
              | (Inl err, e1) \<Rightarrow>
                  (Returned, console_error (js ''Failed to delete task:'') err e1,
                   d\<lparr>error := Some (js ''Failed to delete task. Please try again.'')\<rparr>))))"


section \<open>Task form (components/TaskForm.tsx)\<close>

record task_form =
  title_f :: jsstring
  description_f :: jsstring
  localError :: "jsstring option"

text \<open>
  \<open>onSubmit\<close> is a prop of the component: any handler over the rest of the application
  state \<open>'w\<close>. The \<open>catch\<close> clause of \<open>handleSubmit\<close> swallows the rejection and keeps the
  fields; on success the fields are cleared.
\<close>

definition handleSubmit ::
  "(jsstring \<Rightarrow> jsstring option \<Rightarrow> 'w \<Rightarrow> outcome \<times> 'w) \<Rightarrow> task_form \<times> 'w \<Rightarrow> task_form \<times> 'w" where
  "handleSubmit onSubmit fw =
     (case fw of (f, w) \<Rightarrow>
        (let f1 = f\<lparr>localError := None\<rparr>;
             trimmedTitle = trim (title_f f) in
         if trimmedTitle = [] then
           (f1\<lparr>localError := Some (js ''Title is required'')\<rparr>, w)
         else if length trimmedTitle > 255 then
           (f1\<lparr>localError := Some (js ''Title must be 255 characters or less'')\<rparr>, w)
         else if length (description_f f) > 10000 then
           (f1\<lparr>localError := Some (js ''Description must be 10000 characters or less'')\<rparr>, w)
         else
           (case onSubmit trimmedTitle (or_null (trim (description_f f))) w of
              (Returned, w') \<Rightarrow> (f1\<lparr>title_f := [], description_f := []\<rparr>, w')
            | (Threw _, w') \<Rightarrow> (f1, w'))))"

text \<open>
  \<open>displayError = localError || error\<close>, where \<open>error\<close> is the \<open>createError\<close> of the page.
\<close>

definition displayError :: "task_form \<Rightarrow> detail_value option \<Rightarrow> detail_value option" where
  "displayError f err =
     (if truthy (localError f) then map_option DetailString (localError f) else err)"

text \<open>
  What \<open>{displayError && <div>{displayError}</div>}\<close> gives: no box for a falsy value; a
  box with the text for a string; for an array the box with the array as its child, which
  React renders as nothing when the array is empty and refuses to render when it holds
  objects.
\<close>

datatype banner = NoBanner | Banner jsstring | RenderFailure

definition form_banner :: "task_form \<Rightarrow> detail_value option \<Rightarrow> banner" where
  "form_banner f err =
     (case displayError f err of
        None \<Rightarrow> NoBanner
      | Some (DetailString s) \<Rightarrow> if s \<noteq> [] then Banner s else NoBanner
      | Some (DetailIssues issues) \<Rightarrow> if issues = [] then Banner [] else RenderFailure)"


section \<open>Task item (components/TaskItem.tsx)\<close>

record task_item =
  isEditing :: bool
  editTitle :: jsstring
  editDescription :: jsstring
  isLoading_i :: bool
  isDeleting :: bool

definition initial_item :: "task \<Rightarrow> task_item" where
  "initial_item t =
     \<lparr> isEditing = False, editTitle = title t,
       editDescription = or_else (description t) [],
       isLoading_i = False, isDeleting = False \<rparr>"

definition handleStartEdit :: "task \<Rightarrow> task_item \<Rightarrow> task_item" where
  "handleStartEdit t i =
     i\<lparr>editTitle := title t, editDescription := or_else (description t) [], isEditing := True\<rparr>"

definition handleCancelEdit :: "task \<Rightarrow> task_item \<Rightarrow> task_item" where
  "handleCancelEdit t i =
     i\<lparr>isEditing := False, editTitle := title t, editDescription := or_else (description t) []\<rparr>"

text \<open>
  \<open>handleSaveEdit\<close> has \<open>try ... finally\<close> and no \<open>catch\<close>: a rejection of \<open>onUpdate\<close>
  leaves the item in edit mode and propagates.
\<close>

definition handleSaveEdit ::
  "(jsstring \<Rightarrow> jsstring \<Rightarrow> jsstring option \<Rightarrow> 'w \<Rightarrow> outcome \<times> 'w) \<Rightarrow> task \<Rightarrow>
     task_item \<times> 'w \<Rightarrow> outcome \<times> task_item \<times> 'w" where
  "handleSaveEdit onUpdate t iw =
     (case iw of (i, w) \<Rightarrow>
        (let trimmedTitle = trim (editTitle i) in
         if trimmedTitle = [] then (Returned, i, w)
         else
           (let i1 = i\<lparr>isLoading_i := True\<rparr> in
            case onUpdate (task_id t) trimmedTitle (or_null (trim (editDescription i))) w of
              (Returned, w') \<Rightarrow> (Returned, i1\<lparr>isEditing := False, isLoading_i := False\<rparr>, w')
            | (Threw err, w') \<Rightarrow> (Threw err, i1\<lparr>isLoading_i := False\<rparr>, w'))))"


section \<open>The task resource contract behind the API\<close>

text \<open>
  Modelled from the spec: the backend that serves the task endpoints is not among the
  source files. A stored task is a \<open>Task\<close> with its owner; the store keeps the rows
  newest first and a counter for identifiers.
\<close>

record task_row = task +
  owner :: jsstring

record backend =
  rows :: "task_row list"
  next_id :: nat

text \<open>
  Modelled from the spec: a task id belongs to the caller when a stored task has that id
  and the caller as its owner (the ownership check of the absent backend).
\<close>

definition belongs :: "jsstring \<Rightarrow> jsstring \<Rightarrow> task_row \<Rightarrow> bool" where
  "belongs uid tid r = (task_id r = tid \<and> owner r = uid)"

text \<open>
  Modelled from the spec: the error responses of the absent backend. The body of a
  generic failure is \<open>{detail: string}\<close>, that of a field validation failure
  \<open>{detail: [{loc, msg, type}, ...]}\<close> with one entry for each offending field. The spec
  fixes these shapes and no texts; the texts below stand for whatever the backend sends.
\<close>

definition not_found :: api_error where
  "not_found = \<lparr>kind = NotFoundError, detail = Some (DetailString (js ''Task not found''))\<rparr>"

definition forbidden :: api_error where
  "forbidden = \<lparr>kind = AuthorizationError, detail = Some (DetailString (js ''Forbidden''))\<rparr>"

definition field_issue :: "jsstring \<Rightarrow> validation_issue" where
  "field_issue fld =
     \<lparr>loc = [js ''body'', fld], msg = js ''Invalid value'', issue_type = js ''value_error''\<rparr>"

definition validation_error :: "jsstring list \<Rightarrow> api_error" where
  "validation_error flds =
     \<lparr>kind = ValidationError, detail = Some (DetailIssues (map field_issue flds))\<rparr>"

text \<open>
  Modelled from the spec: identifiers are opaque; the model of the absent backend issues
  the decimal digits of its counter.
\<close>

fun decimal :: "nat \<Rightarrow> jsstring" where
  "decimal n = (if n < 10 then [of_nat (48 + n)] else decimal (n div 10) @ [of_nat (48 + n mod 10)])"

declare decimal.simps [simp del]

text \<open>
  Modelled from the spec: \<open>list()\<close> is scoped to the caller and returns the caller's
  tasks in store order.
\<close>

definition backend_list :: "jsstring \<Rightarrow> backend \<Rightarrow> (api_error + task list) \<times> backend" where
  "backend_list uid s = (Inr (map task.truncate (filter (\<lambda>r. owner r = uid) (rows s))), s)"

text \<open>
  Modelled from the spec: reading a task by id (the backend endpoint is absent) fails
  with NotFoundError when the id does not belong to the caller.
\<close>

definition backend_read :: "jsstring \<Rightarrow> jsstring \<Rightarrow> backend \<Rightarrow> (api_error + task) \<times> backend" where
  "backend_read uid tid s =
     (case find (belongs uid tid) (rows s) of
        None \<Rightarrow> (Inl not_found, s)
      | Some r \<Rightarrow> (Inr (task.truncate r), s))"

text \<open>
  Modelled from the spec: \<open>create(title, description?)\<close> (backend absent) fails with
  ValidationError if the title is empty after trim or longer than 255, or the description
  is longer than 10000; otherwise the new task is not completed, has a fresh id, equal
  creation and update times, and belongs to the caller.
\<close>

definition backend_create ::
  "jsstring \<Rightarrow> jsstring \<Rightarrow> task_create \<Rightarrow> backend \<Rightarrow> (api_error + task) \<times> backend" where
  "backend_create now uid body s =
     (if trim (tc_title body) = [] \<or> length (tc_title body) > 255
         \<or> (case tc_description body of None \<Rightarrow> False | Some d \<Rightarrow> length d > 10000)
      then
        (Inl (validation_error
           ((if trim (tc_title body) = [] \<or> length (tc_title body) > 255
             then [js ''title''] else [])
            @ (if (case tc_description body of None \<Rightarrow> False | Some d \<Rightarrow> length d > 10000)
               then [js ''description''] else []))), s)
      else
        (let r = \<lparr> task_id = decimal (next_id s), title = tc_title body,
                   description = tc_description body, completed = False,
                   created_at = now, updated_at = now, owner = uid \<rparr>
         in (Inr (task.truncate r), s\<lparr>rows := r # rows s, next_id := Suc (next_id s)\<rparr>)))"

text \<open>
  Modelled from the spec: \<open>toggleComplete(id)\<close> (backend absent) flips \<open>completed\<close> and
  fails with NotFoundError when the id does not belong to the caller.
\<close>

definition toggled :: "jsstring \<Rightarrow> task_row \<Rightarrow> task_row" where
  "toggled now r = r\<lparr>completed := \<not> completed r, updated_at := now\<rparr>"

definition backend_toggle ::
  "jsstring \<Rightarrow> jsstring \<Rightarrow> jsstring \<Rightarrow> backend \<Rightarrow> (api_error + task) \<times> backend" where
  "backend_toggle now uid tid s =
     (case find (belongs uid tid) (rows s) of
        None \<Rightarrow> (Inl not_found, s)
      | Some r \<Rightarrow>
          (Inr (task.truncate (toggled now r)),
           s\<lparr>rows := map (\<lambda>x. if belongs uid tid x then toggled now x else x) (rows s)\<rparr>))"

text \<open>
  Modelled from the spec: \<open>update(id, title?, description?)\<close> (backend absent) fails with
  NotFoundError when the id does not belong to the caller, and with ValidationError when
  a given field breaks the bounds of the data model; a field that is absent is kept.
\<close>

definition edited :: "jsstring \<Rightarrow> task_update \<Rightarrow> task_row \<Rightarrow> task_row" where
  "edited now body r =
     r\<lparr> title := (case tu_title body of None \<Rightarrow> title r | Some t \<Rightarrow> t),
        description := (case tu_description body of None \<Rightarrow> description r | Some d \<Rightarrow> d),
        updated_at := now \<rparr>"

definition backend_update ::
  "jsstring \<Rightarrow> jsstring \<Rightarrow> jsstring \<Rightarrow> task_update \<Rightarrow> backend \<Rightarrow> (api_error + task) \<times> backend" where
  "backend_update now uid tid body s =
     (case find (belongs uid tid) (rows s) of
        None \<Rightarrow> (Inl not_found, s)
      | Some r \<Rightarrow>
          (if (case tu_title body of None \<Rightarrow> False | Some t \<Rightarrow> trim t = [] \<or> length t > 255)
              \<or> (case tu_description body of Some (Some d) \<Rightarrow> length d > 10000 | _ \<Rightarrow> False)
           then
             (Inl (validation_error
                ((if (case tu_title body of None \<Rightarrow> False
                      | Some t \<Rightarrow> trim t = [] \<or> length t > 255)
                  then [js ''title''] else [])
                 @ (if (case tu_description body of Some (Some d) \<Rightarrow> length d > 10000
                        | _ \<Rightarrow> False)
                    then [js ''description''] else []))), s)
           else
             (Inr (task.truncate (edited now body r)),
              s\<lparr>rows := map (\<lambda>x. if belongs uid tid x then edited now body x else x) (rows s)\<rparr>)))"

text \<open>
  Modelled from the spec: \<open>delete(id)\<close> (backend absent) fails with NotFoundError when the
  id does not belong to the caller, so also on a second delete.
\<close>

definition backend_delete :: "jsstring \<Rightarrow> jsstring \<Rightarrow> backend \<Rightarrow> (api_error + unit) \<times> backend" where
  "backend_delete uid tid s =
     (case find (belongs uid tid) (rows s) of
        None \<Rightarrow> (Inl not_found, s)
      | Some r \<Rightarrow> (Inr (), s\<lparr>rows := filter (\<lambda>x. \<not> belongs uid tid x) (rows s)\<rparr>))"

text \<open>
  Modelled from the spec: the endpoints of the absent backend. The operations above are
  scoped to the authenticated caller. A request carries two identities: the caller, whom
  the backend resolves from the bearer token, and the user id in the path, which names
  the task collection addressed. A valid token for another user's collection is the
  AuthorizationError of the taxonomy (forbidden); otherwise the operation runs for the
  caller.
\<close>

definition guarded ::
  "jsstring \<Rightarrow> jsstring \<Rightarrow> (backend \<Rightarrow> (api_error + 'a) \<times> backend) \<Rightarrow>
     backend \<Rightarrow> (api_error + 'a) \<times> backend" where
  "guarded caller uid operation s = (if caller \<noteq> uid then (Inl forbidden, s) else operation s)"

definition endpoint_list ::
  "jsstring \<Rightarrow> jsstring \<Rightarrow> backend \<Rightarrow> (api_error + task list) \<times> backend" where
  "endpoint_list caller uid = guarded caller uid (backend_list caller)"

definition endpoint_create ::
  "jsstring \<Rightarrow> jsstring \<Rightarrow> jsstring \<Rightarrow> task_create \<Rightarrow> backend \<Rightarrow>
     (api_error + task) \<times> backend" where
  "endpoint_create now caller uid body = guarded caller uid (backend_create now caller body)"

definition endpoint_read ::
  "jsstring \<Rightarrow> jsstring \<Rightarrow> jsstring \<Rightarrow> backend \<Rightarrow> (api_error + task) \<times> backend" where
  "endpoint_read caller uid tid = guarded caller uid (backend_read caller tid)"

definition endpoint_update ::
  "jsstring \<Rightarrow> jsstring \<Rightarrow> jsstring \<Rightarrow> jsstring \<Rightarrow> task_update \<Rightarrow> backend \<Rightarrow>
     (api_error + task) \<times> backend" where
  "endpoint_update now caller uid tid body =
     guarded caller uid (backend_update now caller tid body)"

definition endpoint_toggle ::
  "jsstring \<Rightarrow> jsstring \<Rightarrow> jsstring \<Rightarrow> jsstring \<Rightarrow> backend \<Rightarrow>
     (api_error + task) \<times> backend" where
  "endpoint_toggle now caller uid tid = guarded caller uid (backend_toggle now caller tid)"

definition endpoint_delete ::
  "jsstring \<Rightarrow> jsstring \<Rightarrow> jsstring \<Rightarrow> backend \<Rightarrow> (api_error + unit) \<times> backend" where
  "endpoint_delete caller uid tid = guarded caller uid (backend_delete caller tid)"

text \<open>
  Modelled from the spec: the contract as the API the components call (the API client
  and the backend are absent). The client takes the bearer token and the user id it
  passes from the same session, so the caller is the user of the path and the guard of
  the endpoints passes (\<open>endpoint_same_user\<close>); \<open>now\<close> is the server's clock reading.
\<close>

definition backend_api :: "jsstring \<Rightarrow> backend task_api" where
  "backend_api now =
     \<lparr> listTasks = backend_list, createTask = backend_create now,
       toggleComplete = backend_toggle now, updateTask = backend_update now,
       deleteTask = backend_delete \<rparr>"


section \<open>Reading results, and concrete instances\<close>

abbreviation outcome_of :: "outcome \<times> 'e \<times> 'd \<Rightarrow> outcome" where
  "outcome_of r \<equiv> fst r"

abbreviation env_of :: "outcome \<times> 'e \<times> 'd \<Rightarrow> 'e" where
  "env_of r \<equiv> fst (snd r)"

abbreviation dash_of :: "outcome \<times> 'e \<times> 'd \<Rightarrow> 'd" where
  "dash_of r \<equiv> snd (snd r)"

definition initial_env :: "'srv \<Rightarrow> 'srv env" where
  "initial_env s = \<lparr>server = s, calls = [], console = []\<rparr>"

text \<open>An API client without connectivity: every request rejects with NetworkError.\<close>

definition network_error :: api_error where
  "network_error = \<lparr>kind = NetworkError, detail = None\<rparr>"

definition offline_api :: "unit task_api" where
  "offline_api =
     \<lparr> listTasks = (\<lambda>uid s. (Inl network_error, s)),
       createTask = (\<lambda>uid body s. (Inl network_error, s)),
       toggleComplete = (\<lambda>uid tid s. (Inl network_error, s)),
       updateTask = (\<lambda>uid tid body s. (Inl network_error, s)),
       deleteTask = (\<lambda>uid tid s. (Inl network_error, s)) \<rparr>"

text \<open>
  An API client whose server rejects every create with the body of a field validation
  failure (\<open>ValidationError\<close> of lib/types.ts), here for the title.
\<close>

definition title_issue :: validation_issue where
  "title_issue =
     \<lparr> loc = [js ''body'', js ''title''], msg = js ''String should have at most 255 characters'',
       issue_type = js ''string_too_long'' \<rparr>"

definition unprocessable :: api_error where
  "unprocessable = \<lparr>kind = ValidationError, detail = Some (DetailIssues [title_issue])\<rparr>"

definition strict_api :: "unit task_api" where
  "strict_api = offline_api\<lparr>createTask := (\<lambda>uid body s. (Inl unprocessable, s))\<rparr>"

text \<open>A store with one task of user \<open>alice\<close>, and the same task as the dashboard holds it.\<close>

definition milk :: task where
  "milk = \<lparr> task_id = js ''0'', title = js ''Buy milk'', description = None,
            completed = False, created_at = js ''t0'', updated_at = js ''t0'' \<rparr>"

definition alice_backend :: backend where
  "alice_backend =
     \<lparr> rows = [\<lparr> task_id = js ''0'', title = js ''Buy milk'', description = None,
                  completed = False, created_at = js ''t0'', updated_at = js ''t0'',
                  owner = js ''alice'' \<rparr>],
       next_id = 1 \<rparr>"

definition alice_dashboard :: dashboard where
  "alice_dashboard = initial_dashboard\<lparr>tasks := [milk], isLoading := False\<rparr>"


section \<open>Properties of trimming\<close>


lemma trim_start_length: "length (trim_start s) \<le> length s"
  by (simp add: trim_start_def length_dropWhile_le)

lemma trim_end_length: "length (trim_end s) \<le> length s"
  using length_dropWhile_le [of is_white_space "rev s"] by (simp add: trim_end_def)

lemma trim_length: "length (trim s) \<le> length s"
  using trim_end_length [of "trim_start s"] trim_start_length [of s]
  by (simp add: trim_def)


lemma trim_start_hd: "trim_start s \<noteq> [] \<Longrightarrow> \<not> is_white_space (hd (trim_start s))"
  unfolding trim_start_def by (rule hd_dropWhile)

lemma trim_end_last: "trim_end s \<noteq> [] \<Longrightarrow> \<not> is_white_space (last (trim_end s))"
  unfolding trim_end_def using hd_dropWhile [of is_white_space "rev s"]
  by (simp add: last_rev)

lemma trim_end_prefix: "\<exists>zs. s = trim_end s @ zs"
proof -
  have "rev s = takeWhile is_white_space (rev s) @ dropWhile is_white_space (rev s)" by simp
  then have "rev (rev s) = rev (takeWhile is_white_space (rev s) @ dropWhile is_white_space (rev s))"
    by simp
  then have "s = rev (dropWhile is_white_space (rev s)) @ rev (takeWhile is_white_space (rev s))"
    by (simp del: takeWhile_dropWhile_id)
  then show ?thesis unfolding trim_end_def by blast
qed

lemma trim_hd: "trim s \<noteq> [] \<Longrightarrow> \<not> is_white_space (hd (trim s))"
proof -
  assume ne: "trim s \<noteq> []"
  obtain zs where z: "trim_start s = trim s @ zs"
    using trim_end_prefix [of "trim_start s"] by (auto simp: trim_def)
  with ne have "hd (trim s) = hd (trim_start s)" by (metis hd_append2)
  moreover from z ne have "trim_start s \<noteq> []" by auto
  ultimately show ?thesis using trim_start_hd by simp
qed

lemma trim_last: "trim s \<noteq> [] \<Longrightarrow> \<not> is_white_space (last (trim s))"
  unfolding trim_def by (rule trim_end_last)

lemma trim_fixed:
  assumes "s \<noteq> []" and "\<not> is_white_space (hd s)" and "\<not> is_white_space (last s)"
  shows "trim s = s"
proof -
  have front: "dropWhile is_white_space s = s"
    using assms(1,2) by (cases s) simp_all
  have rear: "dropWhile is_white_space (rev s) = rev s"
    using assms(1,3) by (cases s rule: rev_cases) simp_all
  show ?thesis by (simp add: trim_def trim_start_def trim_end_def front rear)
qed

lemma trim_clean: "\<forall>c \<in> set s. \<not> is_white_space c \<Longrightarrow> trim s = s"
proof (cases "s = []")
  case True
  then show ?thesis by (simp add: trim_def trim_start_def trim_end_def)
next
  case False
  assume "\<forall>c \<in> set s. \<not> is_white_space c"
  with False show ?thesis by (intro trim_fixed) simp_all
qed

lemma trim_idem: "trim (trim s) = trim s"
proof (cases "trim s = []")
  case True
  have "trim [] = []" by (simp add: trim_def trim_start_def trim_end_def)
  with True show ?thesis by simp
next
  case False
  then show ?thesis by (intro trim_fixed trim_hd trim_last)
qed


section \<open>The handlers of the dashboard, case by case\<close>

lemma present_Some: "present v = Some u \<longleftrightarrow> v = Some u \<and> u \<noteq> []"
  by (auto simp: present_def truthy_def split: option.splits)

lemma present_js: "present (Some (js (c # cs))) = Some (js (c # cs))"
  by (simp add: present_def truthy_def js_def)

lemma create_resolved:
  assumes "present userId = Some uid"
    and "createTask api uid \<lparr>tc_title = ttl, tc_description = descr\<rparr> (server e) = (Inr t, s')"
  shows "handleCreateTask api userId ttl descr (e, d) =
           (Returned,
            e\<lparr>server := s', calls := calls e @ [CreateTask uid \<lparr>tc_title = ttl, tc_description = descr\<rparr>]\<rparr>,
            d\<lparr>createError := None, tasks := t # tasks d, isCreating := False\<rparr>)"
  using assms by (simp add: handleCreateTask_def invoke_def Let_def)

lemma create_rejected:
  assumes "present userId = Some uid"
    and "createTask api uid \<lparr>tc_title = ttl, tc_description = descr\<rparr> (server e) = (Inl err, s')"
  shows "handleCreateTask api userId ttl descr (e, d) =
           (Threw err,
            e\<lparr>server := s', calls := calls e @ [CreateTask uid \<lparr>tc_title = ttl, tc_description = descr\<rparr>],
               console := console e @ [(js ''Failed to create task:'', err)]\<rparr>,
            d\<lparr>createError := Some (detail_or (detail err) (js ''Failed to create task'')),
               isCreating := False\<rparr>)"
  using assms by (simp add: handleCreateTask_def invoke_def console_error_def Let_def)

lemma toggle_resolved:
  assumes "present userId = Some uid"
    and "toggleComplete api uid tid (server e) = (Inr t, s')"
  shows "handleToggleComplete api userId tid (e, d) =
           (Returned, e\<lparr>server := s', calls := calls e @ [ToggleComplete uid tid]\<rparr>,
            d\<lparr>tasks := map (\<lambda>x. if task_id x = tid then t else x) (tasks d)\<rparr>)"
  using assms by (simp add: handleToggleComplete_def invoke_def)

lemma toggle_rejected:
  assumes "present userId = Some uid"
    and "toggleComplete api uid tid (server e) = (Inl err, s')"
  shows "handleToggleComplete api userId tid (e, d) =
           (Returned,
            e\<lparr>server := s', calls := calls e @ [ToggleComplete uid tid],
               console := console e @ [(js ''Failed to toggle task:'', err)]\<rparr>,
            d\<lparr>error := Some (js ''Failed to update task. Please try again.'')\<rparr>)"
  using assms by (simp add: handleToggleComplete_def invoke_def console_error_def)

lemma update_resolved:
  assumes "present userId = Some uid"
    and "updateTask api uid tid \<lparr>tu_title = Some ttl, tu_description = Some descr\<rparr> (server e) = (Inr t, s')"
  shows "handleUpdateTask api userId tid ttl descr (e, d) =
           (Returned,
            e\<lparr>server := s',
               calls := calls e @ [UpdateTask uid tid \<lparr>tu_title = Some ttl, tu_description = Some descr\<rparr>]\<rparr>,
            d\<lparr>tasks := map (\<lambda>x. if task_id x = tid then t else x) (tasks d)\<rparr>)"
  using assms by (simp add: handleUpdateTask_def invoke_def Let_def)

lemma update_rejected:
  assumes "present userId = Some uid"
    and "updateTask api uid tid \<lparr>tu_title = Some ttl, tu_description = Some descr\<rparr> (server e) = (Inl err, s')"
  shows "handleUpdateTask api userId tid ttl descr (e, d) =
           (Threw err,
            e\<lparr>server := s',
               calls := calls e @ [UpdateTask uid tid \<lparr>tu_title = Some ttl, tu_description = Some descr\<rparr>],
               console := console e @ [(js ''Failed to update task:'', err)]\<rparr>,
            d\<lparr>error := Some (js ''Failed to update task. Please try again.'')\<rparr>)"
  using assms by (simp add: handleUpdateTask_def invoke_def console_error_def Let_def)

lemma delete_resolved:
  assumes "present userId = Some uid"
    and "deleteTask api uid tid (server e) = (Inr u, s')"
  shows "handleDeleteTask api userId tid (e, d) =
           (Returned, e\<lparr>server := s', calls := calls e @ [DeleteTask uid tid]\<rparr>,
            d\<lparr>tasks := filter (\<lambda>x. task_id x \<noteq> tid) (tasks d)\<rparr>)"
  using assms by (simp add: handleDeleteTask_def invoke_def)

lemma delete_rejected:
  assumes "present userId = Some uid"
    and "deleteTask api uid tid (server e) = (Inl err, s')"
  shows "handleDeleteTask api userId tid (e, d) =
           (Returned,
            e\<lparr>server := s', calls := calls e @ [DeleteTask uid tid],
               console := console e @ [(js ''Failed to delete task:'', err)]\<rparr>,
            d\<lparr>error := Some (js ''Failed to delete task. Please try again.'')\<rparr>)"
  using assms by (simp add: handleDeleteTask_def invoke_def console_error_def)

lemma detail_or_string:
  assumes "d \<noteq> []" and "\<And>issues. v \<noteq> Some (DetailIssues issues)"
  shows "is_error_string (Some (detail_or v d))"
  using assms
  by (auto simp: detail_or_def is_error_string_def split: option.splits detail_value.splits)

lemma js_Cons_not_Nil: "js (c # cs) \<noteq> []"
  by (simp add: js_def)

section \<open>Reconciliation of the local task list\<close>

text \<open>
  C6. For a signed-in user, every dashboard operation whose API call resolves splices the
  returned object into the local list: create puts the returned task in front of the
  unchanged list; toggle and update keep the length and replace, position by position,
  exactly the entries whose id is the requested one by the returned task; delete keeps,
  in their order, exactly the entries whose id is not the requested one.
\<close>

theorem splice_on_success:
  assumes "present userId = Some uid"
  shows "(createTask api uid \<lparr>tc_title = ttl, tc_description = descr\<rparr> (server e) = (Inr t, s') \<longrightarrow>
            tasks (dash_of (handleCreateTask api userId ttl descr (e, d))) = t # tasks d)
       \<and> (toggleComplete api uid tid (server e) = (Inr t, s') \<longrightarrow>
            length (tasks (dash_of (handleToggleComplete api userId tid (e, d)))) = length (tasks d)
            \<and> (\<forall>i < length (tasks d).
                  tasks (dash_of (handleToggleComplete api userId tid (e, d))) ! i
                    = (if task_id (tasks d ! i) = tid then t else tasks d ! i)))
       \<and> (updateTask api uid tid \<lparr>tu_title = Some ttl, tu_description = Some descr\<rparr> (server e) = (Inr t, s') \<longrightarrow>
            length (tasks (dash_of (handleUpdateTask api userId tid ttl descr (e, d)))) = length (tasks d)
            \<and> (\<forall>i < length (tasks d).
                  tasks (dash_of (handleUpdateTask api userId tid ttl descr (e, d))) ! i
                    = (if task_id (tasks d ! i) = tid then t else tasks d ! i)))
       \<and> (deleteTask api uid tid (server e) = (Inr (), s') \<longrightarrow>
            tasks (dash_of (handleDeleteTask api userId tid (e, d)))
              = filter (\<lambda>x. task_id x \<noteq> tid) (tasks d))"
proof (intro conjI impI)
  assume "createTask api uid \<lparr>tc_title = ttl, tc_description = descr\<rparr> (server e) = (Inr t, s')"
  then show "tasks (dash_of (handleCreateTask api userId ttl descr (e, d))) = t # tasks d"
    by (simp add: create_resolved [OF assms])
next
  assume r: "toggleComplete api uid tid (server e) = (Inr t, s')"
  show "length (tasks (dash_of (handleToggleComplete api userId tid (e, d)))) = length (tasks d)"
    by (simp add: toggle_resolved [OF assms r])
  show "\<forall>i < length (tasks d).
          tasks (dash_of (handleToggleComplete api userId tid (e, d))) ! i
            = (if task_id (tasks d ! i) = tid then t else tasks d ! i)"
    by (simp add: toggle_resolved [OF assms r])
next
  assume r: "updateTask api uid tid \<lparr>tu_title = Some ttl, tu_description = Some descr\<rparr> (server e) = (Inr t, s')"
  show "length (tasks (dash_of (handleUpdateTask api userId tid ttl descr (e, d)))) = length (tasks d)"
    by (simp add: update_resolved [OF assms r])
  show "\<forall>i < length (tasks d).
          tasks (dash_of (handleUpdateTask api userId tid ttl descr (e, d))) ! i
            = (if task_id (tasks d ! i) = tid then t else tasks d ! i)"
    by (simp add: update_resolved [OF assms r])
next
  assume r: "deleteTask api uid tid (server e) = (Inr (), s')"
  show "tasks (dash_of (handleDeleteTask api userId tid (e, d)))
          = filter (\<lambda>x. task_id x \<noteq> tid) (tasks d)"
    by (simp add: delete_resolved [OF assms r])
qed

theorem splice_on_success_witness:
  "tasks (dash_of (handleCreateTask (backend_api (js ''t1'')) (Some (js ''alice'')) (js ''Walk'') None
       (initial_env alice_backend, alice_dashboard)))
     = \<lparr> task_id = js ''1'', title = js ''Walk'', description = None, completed = False,
         created_at = js ''t1'', updated_at = js ''t1'' \<rparr> # [milk]
   \<and> tasks (dash_of (handleToggleComplete (backend_api (js ''t1'')) (Some (js ''alice'')) (js ''0'')
       (initial_env alice_backend, alice_dashboard))) ! 0
     = milk\<lparr>completed := True, updated_at := js ''t1''\<rparr>
   \<and> tasks (dash_of (handleUpdateTask (backend_api (js ''t1'')) (Some (js ''alice'')) (js ''0'') (js ''Walk'') None
       (initial_env alice_backend, alice_dashboard))) ! 0
     = milk\<lparr>title := js ''Walk'', updated_at := js ''t1''\<rparr>
   \<and> tasks (dash_of (handleDeleteTask (backend_api (js ''t1'')) (Some (js ''alice'')) (js ''0'')
       (initial_env alice_backend, alice_dashboard)))
     = []"
proof -
  have u: "present (Some (js ''alice'')) = Some (js ''alice'')" by (rule present_js)
  have sv: "server (initial_env alice_backend) = alice_backend" by (simp add: initial_env_def)
  have a: "tasks alice_dashboard = [milk]" by (simp add: alice_dashboard_def)
  have idm: "task_id milk = js ''0''" by (simp add: milk_def)
  have c: "createTask (backend_api (js ''t1'')) (js ''alice'') \<lparr>tc_title = js ''Walk'', tc_description = None\<rparr> alice_backend
      = (Inr \<lparr> task_id = js ''1'', title = js ''Walk'', description = None, completed = False,
         created_at = js ''t1'', updated_at = js ''t1'' \<rparr>,
         alice_backend\<lparr>rows := \<lparr> task_id = js ''1'', title = js ''Walk'', description = None, completed = False,
         created_at = js ''t1'', updated_at = js ''t1'', owner = js ''alice'' \<rparr> # rows alice_backend, next_id := 2\<rparr>)"
    by (simp add: backend_api_def backend_create_def alice_backend_def js_def trim_def trim_start_def
        trim_end_def is_white_space_def task.truncate_def decimal.simps)
  have t: "toggleComplete (backend_api (js ''t1'')) (js ''alice'') (js ''0'') alice_backend
      = (Inr (milk\<lparr>completed := True, updated_at := js ''t1''\<rparr>),
         alice_backend\<lparr>rows := map (\<lambda>x. if belongs (js ''alice'') (js ''0'') x then toggled (js ''t1'') x else x) (rows alice_backend)\<rparr>)"
    by (simp add: backend_api_def backend_toggle_def alice_backend_def belongs_def toggled_def milk_def
        task.truncate_def)
  have p: "updateTask (backend_api (js ''t1'')) (js ''alice'') (js ''0'') \<lparr>tu_title = Some (js ''Walk''), tu_description = Some None\<rparr> alice_backend
      = (Inr (milk\<lparr>title := js ''Walk'', updated_at := js ''t1''\<rparr>),
         alice_backend\<lparr>rows := map (\<lambda>x. if belongs (js ''alice'') (js ''0'') x then edited (js ''t1'') \<lparr>tu_title = Some (js ''Walk''), tu_description = Some None\<rparr> x else x) (rows alice_backend)\<rparr>)"
    by (simp add: backend_api_def backend_update_def alice_backend_def belongs_def edited_def milk_def
        task.truncate_def js_def trim_def trim_start_def trim_end_def is_white_space_def)
  have x: "deleteTask (backend_api (js ''t1'')) (js ''alice'') (js ''0'') alice_backend
      = (Inr (), alice_backend\<lparr>rows := filter (\<lambda>x. \<not> belongs (js ''alice'') (js ''0'') x) (rows alice_backend)\<rparr>)"
    by (simp add: backend_api_def backend_delete_def alice_backend_def belongs_def)
  note h = splice_on_success [OF u, where api = "backend_api (js ''t1'')" and ttl = "js ''Walk''"
      and descr = None and e = "initial_env alice_backend" and tid = "js ''0''" and d = alice_dashboard,
      unfolded sv]
  from h [where t = "\<lparr> task_id = js ''1'', title = js ''Walk'', description = None, completed = False,
         created_at = js ''t1'', updated_at = js ''t1'' \<rparr>"] c
  have 1: "tasks (dash_of (handleCreateTask (backend_api (js ''t1'')) (Some (js ''alice'')) (js ''Walk'') None
       (initial_env alice_backend, alice_dashboard)))
     = \<lparr> task_id = js ''1'', title = js ''Walk'', description = None, completed = False,
         created_at = js ''t1'', updated_at = js ''t1'' \<rparr> # [milk]"
    by (simp add: a)
  from h [where t = "milk\<lparr>completed := True, updated_at := js ''t1''\<rparr>"] t
  have 2: "tasks (dash_of (handleToggleComplete (backend_api (js ''t1'')) (Some (js ''alice'')) (js ''0'')
       (initial_env alice_backend, alice_dashboard))) ! 0
     = milk\<lparr>completed := True, updated_at := js ''t1''\<rparr>"
    by (simp add: a idm)
  from h [where t = "milk\<lparr>title := js ''Walk'', updated_at := js ''t1''\<rparr>"] p
  have 3: "tasks (dash_of (handleUpdateTask (backend_api (js ''t1'')) (Some (js ''alice'')) (js ''0'') (js ''Walk'') None
       (initial_env alice_backend, alice_dashboard))) ! 0
     = milk\<lparr>title := js ''Walk'', updated_at := js ''t1''\<rparr>"
    by (simp add: a idm)
  from h x
  have 4: "tasks (dash_of (handleDeleteTask (backend_api (js ''t1'')) (Some (js ''alice'')) (js ''0'')
       (initial_env alice_backend, alice_dashboard)))
     = []"
    by (simp add: a idm)
  from 1 2 3 4 show ?thesis by simp
qed

text \<open>
  What the four handlers do when the API call rejects, for a signed-in user: the task
  list is left as it was, the rejection is written to the console, create and update
  reject in turn while toggle and delete return normally, and \<open>error\<close> is set to a fixed
  message by toggle, update and delete. Create stores \<open>detail || "Failed to create task"\<close>
  in \<open>createError\<close>, which is a string that is not empty as long as the detail of the
  rejection is a string or missing.
\<close>

lemma failure_leaves_list:
  assumes "present userId = Some uid"
  shows "(createTask api uid \<lparr>tc_title = ttl, tc_description = descr\<rparr> (server e) = (Inl err, s') \<longrightarrow>
            outcome_of (handleCreateTask api userId ttl descr (e, d)) = Threw err
            \<and> tasks (dash_of (handleCreateTask api userId ttl descr (e, d))) = tasks d
            \<and> createError (dash_of (handleCreateTask api userId ttl descr (e, d)))
                = Some (detail_or (detail err) (js ''Failed to create task''))
            \<and> console (env_of (handleCreateTask api userId ttl descr (e, d)))
                = console e @ [(js ''Failed to create task:'', err)])
       \<and> (toggleComplete api uid tid (server e) = (Inl err, s') \<longrightarrow>
            outcome_of (handleToggleComplete api userId tid (e, d)) = Returned
            \<and> tasks (dash_of (handleToggleComplete api userId tid (e, d))) = tasks d
            \<and> truthy (error (dash_of (handleToggleComplete api userId tid (e, d))))
            \<and> console (env_of (handleToggleComplete api userId tid (e, d)))
                = console e @ [(js ''Failed to toggle task:'', err)])
       \<and> (updateTask api uid tid \<lparr>tu_title = Some ttl, tu_description = Some descr\<rparr> (server e) = (Inl err, s') \<longrightarrow>
            outcome_of (handleUpdateTask api userId tid ttl descr (e, d)) = Threw err
            \<and> tasks (dash_of (handleUpdateTask api userId tid ttl descr (e, d))) = tasks d
            \<and> truthy (error (dash_of (handleUpdateTask api userId tid ttl descr (e, d))))
            \<and> console (env_of (handleUpdateTask api userId tid ttl descr (e, d)))
                = console e @ [(js ''Failed to update task:'', err)])
       \<and> (deleteTask api uid tid (server e) = (Inl err, s') \<longrightarrow>
            outcome_of (handleDeleteTask api userId tid (e, d)) = Returned
            \<and> tasks (dash_of (handleDeleteTask api userId tid (e, d))) = tasks d
            \<and> truthy (error (dash_of (handleDeleteTask api userId tid (e, d))))
            \<and> console (env_of (handleDeleteTask api userId tid (e, d)))
                = console e @ [(js ''Failed to delete task:'', err)])"
proof (intro conjI impI)
  assume r: "createTask api uid \<lparr>tc_title = ttl, tc_description = descr\<rparr> (server e) = (Inl err, s')"
  note h = create_rejected [OF assms r]
  show "outcome_of (handleCreateTask api userId ttl descr (e, d)) = Threw err" by (simp add: h)
  show "tasks (dash_of (handleCreateTask api userId ttl descr (e, d))) = tasks d" by (simp add: h)
  show "createError (dash_of (handleCreateTask api userId ttl descr (e, d)))
          = Some (detail_or (detail err) (js ''Failed to create task''))"
    by (simp add: h)
  show "console (env_of (handleCreateTask api userId ttl descr (e, d)))
          = console e @ [(js ''Failed to create task:'', err)]" by (simp add: h)
next
  assume r: "toggleComplete api uid tid (server e) = (Inl err, s')"
  note h = toggle_rejected [OF assms r]
  show "outcome_of (handleToggleComplete api userId tid (e, d)) = Returned" by (simp add: h)
  show "tasks (dash_of (handleToggleComplete api userId tid (e, d))) = tasks d" by (simp add: h)
  show "truthy (error (dash_of (handleToggleComplete api userId tid (e, d))))"
    by (simp add: h truthy_def js_Cons_not_Nil)
  show "console (env_of (handleToggleComplete api userId tid (e, d)))
          = console e @ [(js ''Failed to toggle task:'', err)]" by (simp add: h)
next
  assume r: "updateTask api uid tid \<lparr>tu_title = Some ttl, tu_description = Some descr\<rparr> (server e) = (Inl err, s')"
  note h = update_rejected [OF assms r]
  show "outcome_of (handleUpdateTask api userId tid ttl descr (e, d)) = Threw err" by (simp add: h)
  show "tasks (dash_of (handleUpdateTask api userId tid ttl descr (e, d))) = tasks d" by (simp add: h)
  show "truthy (error (dash_of (handleUpdateTask api userId tid ttl descr (e, d))))"
    by (simp add: h truthy_def js_Cons_not_Nil)
  show "console (env_of (handleUpdateTask api userId tid ttl descr (e, d)))
          = console e @ [(js ''Failed to update task:'', err)]" by (simp add: h)
next
  assume r: "deleteTask api uid tid (server e) = (Inl err, s')"
  note h = delete_rejected [OF assms r]
  show "outcome_of (handleDeleteTask api userId tid (e, d)) = Returned" by (simp add: h)
  show "tasks (dash_of (handleDeleteTask api userId tid (e, d))) = tasks d" by (simp add: h)
  show "truthy (error (dash_of (handleDeleteTask api userId tid (e, d))))"
    by (simp add: h truthy_def js_Cons_not_Nil)
  show "console (env_of (handleDeleteTask api userId tid (e, d)))
          = console e @ [(js ''Failed to delete task:'', err)]" by (simp add: h)
qed

lemma create_failure_string:
  assumes "present userId = Some uid"
    and "createTask api uid \<lparr>tc_title = ttl, tc_description = descr\<rparr> (server e) = (Inl err, s')"
    and "\<And>issues. detail err \<noteq> Some (DetailIssues issues)"
  shows "is_error_string (createError (dash_of (handleCreateTask api userId ttl descr (e, d))))"
  by (simp add: create_rejected [OF assms(1,2)] detail_or_string [OF _ assms(3)] js_Cons_not_Nil)

text \<open>
  C7. The claim is that every failed server operation of the dashboard leaves the task
  list unchanged, sets a visible error string, logs the error, and re-throws for create
  and update only. All of it holds for toggle, update and delete, and for create when the
  detail of the rejection is a string or missing (\<open>failure_leaves_list\<close>,
  \<open>create_failure_string\<close>). It fails for create at a field validation failure, whose
  detail is an array of issues: for every title, description and state, when the server
  answers create with such a body, \<open>handleCreateTask\<close> re-throws and leaves the list
  alone, but what it stores in \<open>createError\<close> is the array, not a string, and the form
  cannot render it as its error message.
\<close>

theorem create_failure_stores_issues:
  "outcome_of (handleCreateTask strict_api (Some (js ''alice'')) ttl descr (e, d)) = Threw unprocessable
   \<and> tasks (dash_of (handleCreateTask strict_api (Some (js ''alice'')) ttl descr (e, d))) = tasks d
   \<and> createError (dash_of (handleCreateTask strict_api (Some (js ''alice'')) ttl descr (e, d)))
       = Some (DetailIssues [title_issue])
   \<and> \<not> is_error_string
         (createError (dash_of (handleCreateTask strict_api (Some (js ''alice'')) ttl descr (e, d))))
   \<and> form_banner (f\<lparr>localError := None\<rparr>)
         (createError (dash_of (handleCreateTask strict_api (Some (js ''alice'')) ttl descr (e, d))))
       = RenderFailure"
proof -
  have r: "createTask strict_api (js ''alice'') \<lparr>tc_title = ttl, tc_description = descr\<rparr> (server e)
             = (Inl unprocessable, server e)"
    by (simp add: strict_api_def)
  have v: "detail_or (detail unprocessable) (js ''Failed to create task'') = DetailIssues [title_issue]"
    by (simp add: detail_or_def unprocessable_def)
  show ?thesis
    by (simp add: create_rejected [OF present_js r] v is_error_string_def form_banner_def
        displayError_def truthy_def)
qed

text \<open>
  C10. When the session has no user id (\<open>userId\<close> is undefined, or empty and so falsy),
  each of the four mutation handlers returns at once with the environment and the
  dashboard state exactly as they were: no API operation is added to the trace, the
  task list is unchanged, and neither \<open>error\<close> nor \<open>createError\<close> is set.
\<close>

theorem no_user_no_op:
  assumes "\<not> truthy userId"
  shows "handleCreateTask api userId ttl descr (e, d) = (Returned, e, d)
       \<and> handleToggleComplete api userId tid (e, d) = (Returned, e, d)
       \<and> handleUpdateTask api userId tid ttl descr (e, d) = (Returned, e, d)
       \<and> handleDeleteTask api userId tid (e, d) = (Returned, e, d)"
  using assms
  by (simp add: handleCreateTask_def handleToggleComplete_def handleUpdateTask_def
      handleDeleteTask_def present_def)

theorem no_user_no_op_witness:
  "\<not> truthy None
   \<and> handleCreateTask offline_api None (js ''Walk'') None (initial_env (), alice_dashboard)
       = (Returned, initial_env (), alice_dashboard)
   \<and> handleToggleComplete offline_api None (js ''0'') (initial_env (), alice_dashboard)
       = (Returned, initial_env (), alice_dashboard)
   \<and> handleUpdateTask offline_api None (js ''0'') (js ''Walk'') None (initial_env (), alice_dashboard)
       = (Returned, initial_env (), alice_dashboard)
   \<and> handleDeleteTask offline_api None (js ''0'') (initial_env (), alice_dashboard)
       = (Returned, initial_env (), alice_dashboard)"
proof -
  have n: "\<not> truthy None" by (simp add: truthy_def)
  from n no_user_no_op [OF n, of offline_api "js ''Walk''" None "initial_env ()" alice_dashboard "js ''0''"]
  show ?thesis by simp
qed


section \<open>Authentication configuration\<close>

text \<open>
  C8. \<open>getBaseUrl\<close> resolves in this order, where a variable counts as set when it is
  defined and not empty (the test the code makes): \<open>NEXT_PUBLIC_APP_URL\<close> when it is
  set; otherwise \<open>https://\<close> followed by \<open>VERCEL_URL\<close> when that is set; otherwise
  \<open>http://localhost:3000\<close>.
\<close>

theorem getBaseUrl_order:
  "(\<forall>u. env ''NEXT_PUBLIC_APP_URL'' = Some u \<and> u \<noteq> [] \<longrightarrow> getBaseUrl env = u)
   \<and> (\<not> truthy (env ''NEXT_PUBLIC_APP_URL'') \<longrightarrow>
        (\<forall>v. env ''VERCEL_URL'' = Some v \<and> v \<noteq> [] \<longrightarrow> getBaseUrl env = js ''https://'' @ v))
   \<and> (\<not> truthy (env ''NEXT_PUBLIC_APP_URL'') \<and> \<not> truthy (env ''VERCEL_URL'') \<longrightarrow>
        getBaseUrl env = js ''http://localhost:3000'')"
  by (auto simp: getBaseUrl_def present_def truthy_def split: option.splits)

theorem getBaseUrl_order_witness:
  "getBaseUrl [''NEXT_PUBLIC_APP_URL'' \<mapsto> js ''https://todo.example'', ''VERCEL_URL'' \<mapsto> js ''x.vercel.app'']
     = js ''https://todo.example''
   \<and> getBaseUrl [''NEXT_PUBLIC_APP_URL'' \<mapsto> [], ''VERCEL_URL'' \<mapsto> js ''x.vercel.app'']
     = js ''https://x.vercel.app''
   \<and> getBaseUrl Map.empty = js ''http://localhost:3000''"
  using getBaseUrl_order [of "[''NEXT_PUBLIC_APP_URL'' \<mapsto> js ''https://todo.example'', ''VERCEL_URL'' \<mapsto> js ''x.vercel.app'']"]
    getBaseUrl_order [of "[''NEXT_PUBLIC_APP_URL'' \<mapsto> [], ''VERCEL_URL'' \<mapsto> js ''x.vercel.app'']"]
    getBaseUrl_order [of Map.empty]
  by (simp add: truthy_def js_def)

text \<open>
  C9. In every environment the configuration enables email and password sign-in with a
  minimum password length of 8, and gives the JWT plugin the expiration time \<open>7d\<close>
  (seven days) and, as issuer and as audience, the resolved base URL.
\<close>

theorem auth_configuration:
  "enabled (emailAndPassword (auth env))
   \<and> minPasswordLength (emailAndPassword (auth env)) = 8
   \<and> expirationTime (jwt_plugin (auth env)) = js ''7d''
   \<and> issuer (jwt_plugin (auth env)) = getBaseUrl env
   \<and> audience (jwt_plugin (auth env)) = getBaseUrl env"
  by (simp add: auth_def Let_def)


section \<open>Validation in the form and in the item\<close>

lemma handleSubmit_rejects:
  assumes "trim (title_f f) = [] \<or> length (trim (title_f f)) > 255 \<or> length (description_f f) > 10000"
  shows "snd (handleSubmit onSubmit (f, w)) = w"
    and "truthy (localError (fst (handleSubmit onSubmit (f, w))))"
  using assms by (auto simp: handleSubmit_def Let_def truthy_def js_def)

lemma handleSubmit_accepts:
  assumes "trim (title_f f) \<noteq> []" and "length (trim (title_f f)) \<le> 255"
    and "length (description_f f) \<le> 10000"
  shows "handleSubmit onSubmit (f, w) =
           (case onSubmit (trim (title_f f)) (or_null (trim (description_f f))) w of
              (Returned, w') \<Rightarrow> (f\<lparr>localError := None, title_f := [], description_f := []\<rparr>, w')
            | (Threw err, w') \<Rightarrow> (f\<lparr>localError := None\<rparr>, w'))"
  using assms by (simp add: handleSubmit_def Let_def split: prod.splits outcome.splits)

lemma handleSaveEdit_rejects_empty:
  "trim (editTitle i) = [] \<Longrightarrow> handleSaveEdit onUpdate t (i, w) = (Returned, i, w)"
  by (simp add: handleSaveEdit_def)

lemma handleSaveEdit_forwards:
  assumes "trim (editTitle i) \<noteq> []"
  shows "snd (snd (handleSaveEdit onUpdate t (i, w)))
           = snd (onUpdate (task_id t) (trim (editTitle i)) (or_null (trim (editDescription i))) w)"
  using assms by (simp add: handleSaveEdit_def Let_def split: prod.splits outcome.splits)

lemma update_calls:
  assumes "present userId = Some uid"
  shows "calls (env_of (handleUpdateTask api userId tid ttl descr (e, d)))
           = calls e @ [UpdateTask uid tid \<lparr>tu_title = Some ttl, tu_description = Some descr\<rparr>]"
proof (cases "updateTask api uid tid \<lparr>tu_title = Some ttl, tu_description = Some descr\<rparr> (server e)")
  case (Pair r s')
  then show ?thesis
    by (cases r) (simp_all add: update_resolved [OF assms] update_rejected [OF assms])
qed

text \<open>
  A rejection that \<open>handleCreateTask\<close> or \<open>handleUpdateTask\<close> passes on leaves the calling
  form, or the item in edit mode, with what the user typed.
\<close>

lemma form_keeps_fields_on_failure:
  assumes "present userId = Some uid"
    and "trim (title_f f) \<noteq> []" and "length (trim (title_f f)) \<le> 255"
    and "length (description_f f) \<le> 10000"
    and "createTask api uid
           \<lparr>tc_title = trim (title_f f), tc_description = or_null (trim (description_f f))\<rparr>
           (server e) = (Inl err, s')"
  shows "fst (handleSubmit (handleCreateTask api userId) (f, (e, d))) = f\<lparr>localError := None\<rparr>"
    and "displayError (fst (handleSubmit (handleCreateTask api userId) (f, (e, d))))
           (createError (snd (snd (handleSubmit (handleCreateTask api userId) (f, (e, d))))))
         = Some (detail_or (detail err) (js ''Failed to create task''))"
  by (simp_all add: handleSubmit_accepts [OF assms(2,3,4)] create_rejected [OF assms(1,5)]
      displayError_def truthy_def)

lemma item_stays_editing_on_failure:
  assumes "present userId = Some uid" and "trim (editTitle i) \<noteq> []"
    and "updateTask api uid (task_id t)
           \<lparr>tu_title = Some (trim (editTitle i)),
            tu_description = Some (or_null (trim (editDescription i)))\<rparr>
           (server e) = (Inl err, s')"
  shows "fst (handleSaveEdit (handleUpdateTask api userId) t (i, (e, d))) = Threw err"
    and "fst (snd (handleSaveEdit (handleUpdateTask api userId) t (i, (e, d))))
           = i\<lparr>isLoading_i := False\<rparr>"
  using assms(2)
  by (simp_all add: handleSaveEdit_def Let_def update_rejected [OF assms(1,3)])

lemma not_white_a: "\<not> is_white_space 0x61"
  by (simp add: is_white_space_def)

lemma trim_replicate_a: "trim (replicate n 0x61) = replicate n 0x61"
  by (rule trim_clean) (simp add: not_white_a)

text \<open>
  C2. The claim is that a title whose trimmed length is 0 or more than 255 is rejected by
  both the create submit handler and the update save handler before any API call. The
  submit handler does so (\<open>handleSubmit_rejects\<close>), and the save handler does so for an
  empty title (\<open>handleSaveEdit_rejects_empty\<close>); but the save handler has no length
  check. At a title of 256 letters \<open>a\<close>, for every API client, task, item and state,
  \<open>handleSaveEdit\<close> over \<open>handleUpdateTask\<close> invokes \<open>updateTask\<close> with the 256-character
  title, where \<open>handleSubmit\<close> rejects the same title with its length message and leaves
  the environment untouched.
\<close>

theorem save_edit_long_title:
  "length (trim (replicate 256 0x61)) = 256
   \<and> calls (fst (snd (snd (handleSaveEdit (handleUpdateTask api (Some (js ''alice''))) t
        (i\<lparr>editTitle := replicate 256 0x61\<rparr>, (e, d))))))
     = calls e @ [UpdateTask (js ''alice'') (task_id t)
         \<lparr>tu_title = Some (replicate 256 0x61),
          tu_description = Some (or_null (trim (editDescription i)))\<rparr>]
   \<and> handleSubmit (handleCreateTask api (Some (js ''alice''))) (f\<lparr>title_f := replicate 256 0x61\<rparr>, (e, d))
     = (f\<lparr>title_f := replicate 256 0x61,
          localError := Some (js ''Title must be 255 characters or less'')\<rparr>, (e, d))"
proof (intro conjI)
  show "length (trim (replicate 256 0x61)) = 256" by (simp add: trim_replicate_a)
  have ne: "trim (editTitle (i\<lparr>editTitle := replicate 256 0x61\<rparr>)) \<noteq> []"
    by (simp add: trim_replicate_a)
  show "calls (fst (snd (snd (handleSaveEdit (handleUpdateTask api (Some (js ''alice''))) t
        (i\<lparr>editTitle := replicate 256 0x61\<rparr>, (e, d))))))
     = calls e @ [UpdateTask (js ''alice'') (task_id t)
         \<lparr>tu_title = Some (replicate 256 0x61),
          tu_description = Some (or_null (trim (editDescription i)))\<rparr>]"
    using update_calls [OF present_js]
    by (simp add: handleSaveEdit_forwards [OF ne] trim_replicate_a)
  show "handleSubmit (handleCreateTask api (Some (js ''alice''))) (f\<lparr>title_f := replicate 256 0x61\<rparr>, (e, d))
     = (f\<lparr>title_f := replicate 256 0x61,
          localError := Some (js ''Title must be 255 characters or less'')\<rparr>, (e, d))"
    by (simp add: handleSubmit_def Let_def trim_replicate_a)
qed

text \<open>
  C3. The claim is that a description of more than 10000 characters is rejected by both
  handlers without an API call. \<open>handleSubmit\<close> rejects it; \<open>handleSaveEdit\<close> has no such
  check: at a description of 10001 letters \<open>a\<close> with the title \<open>Walk\<close>, for every API
  client, task, item and state, it invokes \<open>updateTask\<close> with the 10001-character
  description.
\<close>

theorem save_edit_long_description:
  "length (replicate 10001 (0x61 :: 16 word)) = 10001
   \<and> calls (fst (snd (snd (handleSaveEdit (handleUpdateTask api (Some (js ''alice''))) t
        (i\<lparr>editTitle := js ''Walk'', editDescription := replicate 10001 0x61\<rparr>, (e, d))))))
     = calls e @ [UpdateTask (js ''alice'') (task_id t)
         \<lparr>tu_title = Some (js ''Walk''),
          tu_description = Some (Some (replicate 10001 0x61))\<rparr>]
   \<and> handleSubmit (handleCreateTask api (Some (js ''alice'')))
        (f\<lparr>title_f := js ''Walk'', description_f := replicate 10001 0x61\<rparr>, (e, d))
     = (f\<lparr>title_f := js ''Walk'', description_f := replicate 10001 0x61,
          localError := Some (js ''Description must be 10000 characters or less'')\<rparr>, (e, d))"
proof (intro conjI)
  show "length (replicate 10001 (0x61 :: 16 word)) = 10001" by simp
  have w: "trim (js ''Walk'') = js ''Walk''"
    by (simp add: js_def trim_def trim_start_def trim_end_def is_white_space_def)
  have wne: "js ''Walk'' \<noteq> []" by (simp add: js_def)
  have wlen: "length (js ''Walk'') = 4" by (simp add: js_def)
  have ne: "trim (editTitle (i\<lparr>editTitle := js ''Walk'', editDescription := replicate 10001 0x61\<rparr>)) \<noteq> []"
    by (simp add: w wne)
  show "calls (fst (snd (snd (handleSaveEdit (handleUpdateTask api (Some (js ''alice''))) t
        (i\<lparr>editTitle := js ''Walk'', editDescription := replicate 10001 0x61\<rparr>, (e, d))))))
     = calls e @ [UpdateTask (js ''alice'') (task_id t)
         \<lparr>tu_title = Some (js ''Walk''),
          tu_description = Some (Some (replicate 10001 0x61))\<rparr>]"
    using update_calls [OF present_js]
    by (simp add: handleSaveEdit_forwards [OF ne] trim_replicate_a w or_null_def)
  show "handleSubmit (handleCreateTask api (Some (js ''alice'')))
        (f\<lparr>title_f := js ''Walk'', description_f := replicate 10001 0x61\<rparr>, (e, d))
     = (f\<lparr>title_f := js ''Walk'', description_f := replicate 10001 0x61,
          localError := Some (js ''Description must be 10000 characters or less'')\<rparr>, (e, d))"
    by (simp add: handleSubmit_def Let_def w wne wlen)
qed


section \<open>The task resource contract\<close>

lemma find_belongs_None:
  "find (belongs uid tid) rs = None \<longleftrightarrow> (\<forall>r \<in> set rs. task_id r = tid \<longrightarrow> owner r \<noteq> uid)"
  by (auto simp: find_None_iff belongs_def)

lemma belongs_toggled [simp]: "belongs uid tid (toggled now r) = belongs uid tid r"
  by (simp add: belongs_def toggled_def)

lemma belongs_edited [simp]: "belongs uid tid (edited now body r) = belongs uid tid r"
  by (simp add: belongs_def edited_def)

lemma find_map_matching:
  assumes "\<And>x. P (f x) = P x"
  shows "find P (map (\<lambda>x. if P x then f x else x) rs) = map_option f (find P rs)"
  using assms by (induction rs) simp_all

lemma backend_toggle_owned:
  assumes "find (belongs uid tid) (rows s) = Some r"
  shows "backend_toggle now uid tid s =
           (Inr (task.truncate (toggled now r)),
            s\<lparr>rows := map (\<lambda>x. if belongs uid tid x then toggled now x else x) (rows s)\<rparr>)"
    and "find (belongs uid tid)
           (rows (snd (backend_toggle now uid tid s))) = Some (toggled now r)"
  using assms by (simp_all add: backend_toggle_def find_map_matching)

lemma completed_toggled: "completed (task.truncate (toggled now r)) = (\<not> completed r)"
  by (simp add: toggled_def task.truncate_def)

lemma completed_toggled_row: "completed (toggled now r) = (\<not> completed r)"
  by (simp add: toggled_def)


lemma alice_row:
  "find (belongs (js ''alice'') (js ''0'')) (rows alice_backend)
     = Some \<lparr> task_id = js ''0'', title = js ''Buy milk'', description = None,
               completed = False, created_at = js ''t0'', updated_at = js ''t0'',
               owner = js ''alice'' \<rparr>"
  by (simp add: alice_backend_def belongs_def)

text \<open>
  C5. Under the task contract of the specification, for a task that belongs to the
  caller, \<open>toggleComplete\<close> succeeds and returns the task with \<open>completed\<close> flipped, and
  a second \<open>toggleComplete\<close> returns it with the original value. Through the dashboard,
  for a signed-in user, every local entry with that id shows the flipped value after one
  \<open>handleToggleComplete\<close> and the original value of the stored task after two.
\<close>

theorem toggle_involution:
  assumes "find (belongs uid tid) (rows (server e)) = Some r" and "uid \<noteq> []"
  shows "(\<exists>t1 s1 t2 s2.
            backend_toggle now uid tid (server e) = (Inr t1, s1) \<and> completed t1 = (\<not> completed r)
            \<and> backend_toggle now' uid tid s1 = (Inr t2, s2) \<and> completed t2 = completed r)
       \<and> (\<forall>x \<in> set (tasks (dash_of (handleToggleComplete (backend_api now) (Some uid) tid (e, d)))).
             task_id x = tid \<longrightarrow> completed x = (\<not> completed r))
       \<and> (\<forall>x \<in> set (tasks (dash_of (handleToggleComplete (backend_api now') (Some uid) tid
                (snd (handleToggleComplete (backend_api now) (Some uid) tid (e, d)))))).
             task_id x = tid \<longrightarrow> completed x = completed r)"
proof (intro conjI)
  let ?s1 = "snd (backend_toggle now uid tid (server e))"
  let ?r1 = "toggled now r"
  note first = backend_toggle_owned [OF assms(1), of now]
  note second = backend_toggle_owned [OF first(2), of now']
  have u: "present (Some uid) = Some uid" using assms(2) by (simp add: present_Some)
  show "\<exists>t1 s1 t2 s2.
            backend_toggle now uid tid (server e) = (Inr t1, s1) \<and> completed t1 = (\<not> completed r)
            \<and> backend_toggle now' uid tid s1 = (Inr t2, s2) \<and> completed t2 = completed r"
    using first(1) second(1) by (simp add: completed_toggled completed_toggled_row)
  have api1: "toggleComplete (backend_api now) uid tid (server e) = (Inr (task.truncate ?r1), ?s1)"
    using first(1) by (simp add: backend_api_def)
  note h1 = toggle_resolved [OF u api1, of d]
  show "\<forall>x \<in> set (tasks (dash_of (handleToggleComplete (backend_api now) (Some uid) tid (e, d)))).
             task_id x = tid \<longrightarrow> completed x = (\<not> completed r)"
    by (auto simp: h1 completed_toggled completed_toggled_row)
  have api2: "toggleComplete (backend_api now') uid tid
                (server (e\<lparr>server := ?s1, calls := calls e @ [ToggleComplete uid tid]\<rparr>))
              = (Inr (task.truncate (toggled now' ?r1)), snd (backend_toggle now' uid tid ?s1))"
    using second(1) by (simp add: backend_api_def)
  note h2 = toggle_resolved [OF u api2]
  show "\<forall>x \<in> set (tasks (dash_of (handleToggleComplete (backend_api now') (Some uid) tid
                (snd (handleToggleComplete (backend_api now) (Some uid) tid (e, d)))))).
             task_id x = tid \<longrightarrow> completed x = completed r"
    by (auto simp: h1 h2 completed_toggled completed_toggled_row)
qed

theorem toggle_involution_witness:
  "(\<exists>t1 s1 t2 s2.
      backend_toggle (js ''t1'') (js ''alice'') (js ''0'') alice_backend = (Inr t1, s1) \<and> completed t1
      \<and> backend_toggle (js ''t2'') (js ''alice'') (js ''0'') s1 = (Inr t2, s2) \<and> \<not> completed t2)
   \<and> map completed (tasks (dash_of (handleToggleComplete (backend_api (js ''t1'')) (Some (js ''alice'')) (js ''0'')
          (initial_env alice_backend, alice_dashboard)))) = [True]
   \<and> map completed (tasks (dash_of (handleToggleComplete (backend_api (js ''t2'')) (Some (js ''alice'')) (js ''0'')
          (snd (handleToggleComplete (backend_api (js ''t1'')) (Some (js ''alice'')) (js ''0'')
             (initial_env alice_backend, alice_dashboard)))))) = [False]"
proof -
  have sv: "server (initial_env alice_backend) = alice_backend" by (simp add: initial_env_def)
  have row: "find (belongs (js ''alice'') (js ''0'')) (rows (server (initial_env alice_backend)))
     = Some \<lparr> task_id = js ''0'', title = js ''Buy milk'', description = None,
               completed = False, created_at = js ''t0'', updated_at = js ''t0'',
               owner = js ''alice'' \<rparr>"
    by (simp add: sv alice_row)
  have ne: "js ''alice'' \<noteq> []" by (simp add: js_def)
  note h = toggle_involution [OF row ne, of "js ''t1''" "js ''t2''" alice_dashboard, unfolded sv]
  have ev: "handleToggleComplete (backend_api (js ''t1'')) (Some (js ''alice'')) (js ''0'')
          (initial_env alice_backend, alice_dashboard)
        = (Returned,
           \<lparr>server = \<lparr>rows = [\<lparr> task_id = js ''0'', title = js ''Buy milk'', description = None,
               completed = True, created_at = js ''t0'', updated_at = js ''t1'',
               owner = js ''alice'' \<rparr>], next_id = 1\<rparr>,
            calls = [ToggleComplete (js ''alice'') (js ''0'')], console = []\<rparr>,
           alice_dashboard\<lparr>tasks := [milk\<lparr>completed := True, updated_at := js ''t1''\<rparr>]\<rparr>)"
    by (simp add: handleToggleComplete_def invoke_def backend_api_def backend_toggle_def
        alice_backend_def alice_dashboard_def initial_env_def belongs_def toggled_def milk_def
        present_def truthy_def js_def task.truncate_def)
  have ev2: "\<And>n c. tasks (dash_of (handleToggleComplete (backend_api (js ''t2'')) (Some (js ''alice'')) (js ''0'')
          (\<lparr>server = \<lparr>rows = [\<lparr> task_id = js ''0'', title = js ''Buy milk'', description = None,
               completed = True, created_at = js ''t0'', updated_at = js ''t1'',
               owner = js ''alice'' \<rparr>], next_id = n\<rparr>,
            calls = c, console = []\<rparr>,
           alice_dashboard\<lparr>tasks := [milk\<lparr>completed := True, updated_at := js ''t1''\<rparr>]\<rparr>)))
        = [milk\<lparr>completed := False, updated_at := js ''t2''\<rparr>]"
    by (simp add: handleToggleComplete_def invoke_def backend_api_def backend_toggle_def
        belongs_def toggled_def milk_def present_def truthy_def js_def task.truncate_def)
  from h have "\<exists>t1 s1 t2 s2.
      backend_toggle (js ''t1'') (js ''alice'') (js ''0'') alice_backend = (Inr t1, s1) \<and> completed t1
      \<and> backend_toggle (js ''t2'') (js ''alice'') (js ''0'') s1 = (Inr t2, s2) \<and> \<not> completed t2"
    by simp
  then show ?thesis by (simp add: ev ev2)
qed

lemma endpoint_same_user:
  "listTasks (backend_api now) uid s = endpoint_list uid uid s"
  "createTask (backend_api now) uid new s = endpoint_create now uid uid new s"
  "toggleComplete (backend_api now) uid tid s = endpoint_toggle now uid uid tid s"
  "updateTask (backend_api now) uid tid body s = endpoint_update now uid uid tid body s"
  "deleteTask (backend_api now) uid tid s = endpoint_delete uid uid tid s"
  by (simp_all add: backend_api_def guarded_def endpoint_list_def endpoint_create_def
      endpoint_toggle_def endpoint_update_def endpoint_delete_def)

text \<open>
  In the caller's own collection, list and create take no task id and succeed; they do
  not reach another user's task: the list holds no id that is not the caller's, and
  create leaves the tasks of every other user as they were.
\<close>

lemma own_collection_is_scoped:
  assumes "\<forall>r \<in> set (rows s). task_id r = tid \<longrightarrow> owner r \<noteq> caller"
  shows "\<exists>ts. endpoint_list caller caller s = (Inr ts, s) \<and> tid \<notin> task_id ` set ts"
    and "filter (\<lambda>r. owner r \<noteq> caller) (rows (snd (endpoint_create now caller caller new s)))
           = filter (\<lambda>r. owner r \<noteq> caller) (rows s)"
proof -
  have "tid \<notin> task_id ` set (map task.truncate (filter (\<lambda>r. owner r = caller) (rows s)))"
    using assms by (auto simp: task.truncate_def)
  then show "\<exists>ts. endpoint_list caller caller s = (Inr ts, s) \<and> tid \<notin> task_id ` set ts"
    by (simp add: endpoint_list_def guarded_def backend_list_def)
  show "filter (\<lambda>r. owner r \<noteq> caller) (rows (snd (endpoint_create now caller caller new s)))
           = filter (\<lambda>r. owner r \<noteq> caller) (rows s)"
    by (simp add: endpoint_create_def guarded_def backend_create_def Let_def)
qed

text \<open>
  C1. Under the task contract of the specification, a user acts on a task of another user
  either by addressing that user's collection (the user id of the path differs from the
  caller of the token) or by naming, in a request of its own, a task id that does not
  belong to it. In the first case every operation (list, create, read, update, toggle,
  delete) fails with the authorization error, for every task id and whatever the store
  holds. In the second case read, update, toggle and delete fail with the authorization
  error or the not-found error, the same whether the task exists as another user's or not
  at all. No operation succeeds and the store is left unchanged.
\<close>

theorem foreign_task_fails:
  "(caller \<noteq> uid \<longrightarrow>
        endpoint_list caller uid s = (Inl forbidden, s)
      \<and> endpoint_create now caller uid new s = (Inl forbidden, s)
      \<and> endpoint_read caller uid tid s = (Inl forbidden, s)
      \<and> endpoint_update now caller uid tid body s = (Inl forbidden, s)
      \<and> endpoint_toggle now caller uid tid s = (Inl forbidden, s)
      \<and> endpoint_delete caller uid tid s = (Inl forbidden, s))
   \<and> ((\<forall>r \<in> set (rows s). task_id r = tid \<longrightarrow> owner r \<noteq> caller) \<longrightarrow>
        endpoint_read caller uid tid s = (Inl (if caller \<noteq> uid then forbidden else not_found), s)
      \<and> endpoint_update now caller uid tid body s
          = (Inl (if caller \<noteq> uid then forbidden else not_found), s)
      \<and> endpoint_toggle now caller uid tid s
          = (Inl (if caller \<noteq> uid then forbidden else not_found), s)
      \<and> endpoint_delete caller uid tid s
          = (Inl (if caller \<noteq> uid then forbidden else not_found), s))
   \<and> kind forbidden = AuthorizationError \<and> kind not_found = NotFoundError"
proof (intro conjI impI)
  assume other: "caller \<noteq> uid"
  show "endpoint_list caller uid s = (Inl forbidden, s)"
    using other by (simp add: endpoint_list_def guarded_def)
  show "endpoint_create now caller uid new s = (Inl forbidden, s)"
    using other by (simp add: endpoint_create_def guarded_def)
  show "endpoint_read caller uid tid s = (Inl forbidden, s)"
    using other by (simp add: endpoint_read_def guarded_def)
  show "endpoint_update now caller uid tid body s = (Inl forbidden, s)"
    using other by (simp add: endpoint_update_def guarded_def)
  show "endpoint_toggle now caller uid tid s = (Inl forbidden, s)"
    using other by (simp add: endpoint_toggle_def guarded_def)
  show "endpoint_delete caller uid tid s = (Inl forbidden, s)"
    using other by (simp add: endpoint_delete_def guarded_def)
next
  assume "\<forall>r \<in> set (rows s). task_id r = tid \<longrightarrow> owner r \<noteq> caller"
  then have none: "find (belongs caller tid) (rows s) = None"
    by (simp add: find_belongs_None)
  show "endpoint_read caller uid tid s = (Inl (if caller \<noteq> uid then forbidden else not_found), s)"
    using none by (auto simp: endpoint_read_def guarded_def backend_read_def)
  show "endpoint_update now caller uid tid body s
          = (Inl (if caller \<noteq> uid then forbidden else not_found), s)"
    using none by (auto simp: endpoint_update_def guarded_def backend_update_def)
  show "endpoint_toggle now caller uid tid s
          = (Inl (if caller \<noteq> uid then forbidden else not_found), s)"
    using none by (auto simp: endpoint_toggle_def guarded_def backend_toggle_def)
  show "endpoint_delete caller uid tid s
          = (Inl (if caller \<noteq> uid then forbidden else not_found), s)"
    using none by (auto simp: endpoint_delete_def guarded_def backend_delete_def)
next
  show "kind forbidden = AuthorizationError" by (simp add: forbidden_def)
  show "kind not_found = NotFoundError" by (simp add: not_found_def)
qed

theorem foreign_task_fails_witness:
  "endpoint_list (js ''bob'') (js ''alice'') alice_backend = (Inl forbidden, alice_backend)
   \<and> endpoint_create (js ''t1'') (js ''bob'') (js ''alice'')
        \<lparr>tc_title = js ''Mine now'', tc_description = None\<rparr> alice_backend
       = (Inl forbidden, alice_backend)
   \<and> endpoint_read (js ''bob'') (js ''alice'') (js ''0'') alice_backend = (Inl forbidden, alice_backend)
   \<and> endpoint_update (js ''t1'') (js ''bob'') (js ''alice'') (js ''0'')
        \<lparr>tu_title = Some (js ''Mine now''), tu_description = None\<rparr> alice_backend
       = (Inl forbidden, alice_backend)
   \<and> endpoint_toggle (js ''t1'') (js ''bob'') (js ''alice'') (js ''0'') alice_backend
       = (Inl forbidden, alice_backend)
   \<and> endpoint_delete (js ''bob'') (js ''alice'') (js ''0'') alice_backend = (Inl forbidden, alice_backend)
   \<and> endpoint_read (js ''bob'') (js ''bob'') (js ''0'') alice_backend = (Inl not_found, alice_backend)
   \<and> endpoint_update (js ''t1'') (js ''bob'') (js ''bob'') (js ''0'')
        \<lparr>tu_title = Some (js ''Mine now''), tu_description = None\<rparr> alice_backend
       = (Inl not_found, alice_backend)
   \<and> endpoint_toggle (js ''t1'') (js ''bob'') (js ''bob'') (js ''0'') alice_backend
       = (Inl not_found, alice_backend)
   \<and> endpoint_delete (js ''bob'') (js ''bob'') (js ''0'') alice_backend = (Inl not_found, alice_backend)
   \<and> endpoint_read (js ''bob'') (js ''bob'') (js ''7'') alice_backend = (Inl not_found, alice_backend)"
proof -
  have other: "js ''bob'' \<noteq> js ''alice''" by (simp add: js_def)
  have foreign: "\<forall>r \<in> set (rows alice_backend). task_id r = js ''0'' \<longrightarrow> owner r \<noteq> js ''bob''"
    by (simp add: alice_backend_def js_def)
  have unknown: "\<forall>r \<in> set (rows alice_backend). task_id r = js ''7'' \<longrightarrow> owner r \<noteq> js ''bob''"
    by (simp add: alice_backend_def js_def)
  note cross = foreign_task_fails [where caller = "js ''bob''" and uid = "js ''alice''"
      and s = alice_backend and tid = "js ''0''" and now = "js ''t1''"
      and new = "\<lparr>tc_title = js ''Mine now'', tc_description = None\<rparr>"
      and body = "\<lparr>tu_title = Some (js ''Mine now''), tu_description = None\<rparr>"]
  note own = foreign_task_fails [where caller = "js ''bob''" and uid = "js ''bob''"
      and s = alice_backend and tid = "js ''0''" and now = "js ''t1''"
      and body = "\<lparr>tu_title = Some (js ''Mine now''), tu_description = None\<rparr>"]
  note gone = foreign_task_fails [where caller = "js ''bob''" and uid = "js ''bob''"
      and s = alice_backend and tid = "js ''7''"]
  from cross other own foreign gone unknown show ?thesis by simp
qed


section \<open>Creating a task from the form\<close>

lemma backend_create_echo:
  assumes "trim ttl \<noteq> []" and "length ttl \<le> 255"
    and "case descr of None \<Rightarrow> True | Some x \<Rightarrow> length x \<le> 10000"
  shows "\<exists>t s'. backend_create now uid \<lparr>tc_title = ttl, tc_description = descr\<rparr> s = (Inr t, s')
           \<and> title t = ttl \<and> description t = descr \<and> \<not> completed t
           \<and> created_at t = updated_at t"
  using assms
  by (auto simp: backend_create_def Let_def task.truncate_def split: option.splits)

lemma contract_accepts_submitted:
  assumes "trim (title_f f) \<noteq> []" and "length (trim (title_f f)) \<le> 255"
    and "length (description_f f) \<le> 10000"
  shows "\<exists>t s'. createTask (backend_api now) uid
             \<lparr>tc_title = trim (title_f f), tc_description = or_null (trim (description_f f))\<rparr> s
           = (Inr t, s')
         \<and> title t = trim (title_f f) \<and> description t = or_null (trim (description_f f))
         \<and> \<not> completed t \<and> created_at t = updated_at t"
proof -
  have "length (trim (description_f f)) \<le> 10000"
    using trim_length [of "description_f f"] assms(3) by simp
  then have d: "case or_null (trim (description_f f)) of None \<Rightarrow> True | Some x \<Rightarrow> length x \<le> 10000"
    by (simp add: or_null_def)
  have t: "trim (trim (title_f f)) \<noteq> []" using assms(1) by (simp add: trim_idem)
  from backend_create_echo [OF t assms(2) d, of now uid s]
  show ?thesis by (simp add: backend_api_def)
qed

text \<open>
  For any API client: input that passes the checks of \<open>handleSubmit\<close> is sent to create
  trimmed, and a task the call returns is put at the head of the list as returned.
\<close>

lemma submit_sends_trimmed:
  assumes "present userId = Some uid"
    and "trim (title_f f) \<noteq> []" and "length (trim (title_f f)) \<le> 255"
    and "length (description_f f) \<le> 10000"
    and "createTask api uid
           \<lparr>tc_title = trim (title_f f), tc_description = or_null (trim (description_f f))\<rparr>
           (server e) = (Inr t, s')"
  shows "handleSubmit (handleCreateTask api userId) (f, (e, d)) =
           (f\<lparr>localError := None, title_f := [], description_f := []\<rparr>,
            (e\<lparr>server := s',
               calls := calls e @ [CreateTask uid
                 \<lparr>tc_title = trim (title_f f), tc_description = or_null (trim (description_f f))\<rparr>]\<rparr>,
             d\<lparr>createError := None, tasks := t # tasks d, isCreating := False\<rparr>))"
  by (simp add: handleSubmit_accepts [OF assms(2,3,4)] create_resolved [OF assms(1,5)])

text \<open>
  C4, as amended. For a signed-in user, a title whose trimmed form has 1 to 255 characters
  and a description of 0 to 10000 characters, submitting the form creates the task: the
  create call, made with the trimmed title and the trimmed description (\<open>null\<close> when
  nothing is left of it), succeeds under the task contract of the specification, and the
  task it returns carries exactly the trimmed title and the trimmed description; that
  task is put at the head of the list and the form is cleared.
\<close>

theorem create_round_trip:
  assumes "present userId = Some uid"
    and "trim (title_f f) \<noteq> []" and "length (trim (title_f f)) \<le> 255"
    and "length (description_f f) \<le> 10000"
  shows "\<exists>t s'.
           createTask (backend_api now) uid
             \<lparr>tc_title = trim (title_f f), tc_description = or_null (trim (description_f f))\<rparr>
             (server e) = (Inr t, s')
         \<and> title t = trim (title_f f)
         \<and> description t = or_null (trim (description_f f))
         \<and> handleSubmit (handleCreateTask (backend_api now) userId) (f, (e, d)) =
             (f\<lparr>localError := None, title_f := [], description_f := []\<rparr>,
              (e\<lparr>server := s',
                 calls := calls e @ [CreateTask uid
                   \<lparr>tc_title = trim (title_f f),
                    tc_description = or_null (trim (description_f f))\<rparr>]\<rparr>,
               d\<lparr>createError := None, tasks := t # tasks d, isCreating := False\<rparr>))"
proof -
  from contract_accepts_submitted [OF assms(2,3,4), of now uid "server e"]
  obtain t s' where
    ok: "createTask (backend_api now) uid
           \<lparr>tc_title = trim (title_f f), tc_description = or_null (trim (description_f f))\<rparr>
           (server e) = (Inr t, s')"
    and ttl: "title t = trim (title_f f)"
    and dsc: "description t = or_null (trim (description_f f))"
    by blast
  from submit_sends_trimmed [OF assms ok, of d] ok ttl dsc show ?thesis by blast
qed

theorem create_round_trip_witness:
  "handleSubmit (handleCreateTask (backend_api (js ''t1'')) (Some (js ''alice'')))
     (\<lparr>title_f = js '' Walk '', description_f = js '' '', localError = None\<rparr>,
      (initial_env alice_backend, alice_dashboard))
   = (\<lparr>title_f = [], description_f = [], localError = None\<rparr>,
      (\<lparr>server = \<lparr>rows =
           [\<lparr> task_id = js ''1'', title = js ''Walk'', description = None, completed = False,
               created_at = js ''t1'', updated_at = js ''t1'', owner = js ''alice'' \<rparr>,
            \<lparr> task_id = js ''0'', title = js ''Buy milk'', description = None,
               completed = False, created_at = js ''t0'', updated_at = js ''t0'',
               owner = js ''alice'' \<rparr>],
         next_id = 2\<rparr>,
        calls = [CreateTask (js ''alice'') \<lparr>tc_title = js ''Walk'', tc_description = None\<rparr>],
        console = []\<rparr>,
       alice_dashboard\<lparr>tasks :=
         [\<lparr> task_id = js ''1'', title = js ''Walk'', description = None, completed = False,
             created_at = js ''t1'', updated_at = js ''t1'' \<rparr>, milk]\<rparr>))"
proof -
  let ?f = "\<lparr>title_f = js '' Walk '', description_f = js '' '', localError = None\<rparr>"
  have tt: "trim (title_f ?f) = js ''Walk''"
    by (simp add: js_def trim_def trim_start_def trim_end_def is_white_space_def)
  have td: "or_null (trim (description_f ?f)) = None"
    by (simp add: or_null_def js_def trim_def trim_start_def trim_end_def is_white_space_def)
  have u: "present (Some (js ''alice'')) = Some (js ''alice'')" by (rule present_js)
  have 1: "trim (title_f ?f) \<noteq> []" unfolding tt by (simp add: js_def)
  have 2: "length (trim (title_f ?f)) \<le> 255" unfolding tt by (simp add: js_def)
  have 3: "length (description_f ?f) \<le> 10000" by (simp add: js_def)
  have 4: "createTask (backend_api (js ''t1'')) (js ''alice'')
           \<lparr>tc_title = trim (title_f ?f), tc_description = or_null (trim (description_f ?f))\<rparr>
           (server (initial_env alice_backend))
         = (Inr \<lparr> task_id = js ''1'', title = js ''Walk'', description = None, completed = False,
                 created_at = js ''t1'', updated_at = js ''t1'' \<rparr>,
            \<lparr>rows =
              [\<lparr> task_id = js ''1'', title = js ''Walk'', description = None, completed = False,
                  created_at = js ''t1'', updated_at = js ''t1'', owner = js ''alice'' \<rparr>,
               \<lparr> task_id = js ''0'', title = js ''Buy milk'', description = None,
                  completed = False, created_at = js ''t0'', updated_at = js ''t0'',
                  owner = js ''alice'' \<rparr>],
             next_id = 2\<rparr>)"
    unfolding tt td
    by (simp add: backend_api_def backend_create_def alice_backend_def initial_env_def js_def
        trim_def trim_start_def trim_end_def is_white_space_def task.truncate_def decimal.simps)
  have tt': "trim (js '' Walk '') = js ''Walk''" using tt by simp
  have td': "or_null (trim (js '' '')) = None" using td by simp
  from create_round_trip [OF u 1 2 3, of "js ''t1''" "initial_env alice_backend" alice_dashboard]
  obtain t s' where
    ok: "createTask (backend_api (js ''t1'')) (js ''alice'')
           \<lparr>tc_title = trim (title_f ?f), tc_description = or_null (trim (description_f ?f))\<rparr>
           (server (initial_env alice_backend)) = (Inr t, s')"
    and run: "handleSubmit (handleCreateTask (backend_api (js ''t1'')) (Some (js ''alice'')))
           (?f, (initial_env alice_backend, alice_dashboard)) =
           (?f\<lparr>localError := None, title_f := [], description_f := []\<rparr>,
            ((initial_env alice_backend)\<lparr>server := s',
               calls := calls (initial_env alice_backend) @ [CreateTask (js ''alice'')
                 \<lparr>tc_title = trim (title_f ?f),
                  tc_description = or_null (trim (description_f ?f))\<rparr>]\<rparr>,
             alice_dashboard\<lparr>createError := None, tasks := t # tasks alice_dashboard,
               isCreating := False\<rparr>))"
    by blast
  from ok 4 have t: "t = \<lparr> task_id = js ''1'', title = js ''Walk'', description = None,
        completed = False, created_at = js ''t1'', updated_at = js ''t1'' \<rparr>"
    and s': "s' = \<lparr>rows =
              [\<lparr> task_id = js ''1'', title = js ''Walk'', description = None, completed = False,
                  created_at = js ''t1'', updated_at = js ''t1'', owner = js ''alice'' \<rparr>,
               \<lparr> task_id = js ''0'', title = js ''Buy milk'', description = None,
                  completed = False, created_at = js ''t0'', updated_at = js ''t0'',
                  owner = js ''alice'' \<rparr>],
             next_id = 2\<rparr>"
    by simp_all
  from run show ?thesis
    unfolding t s'
    by (simp add: initial_env_def alice_dashboard_def initial_dashboard_def tt' td')
qed

text \<open>
  C4 as stated fails: what the created task carries is not what was typed. The title
  \<open>" Walk"\<close> (5 characters, 4 after trimming) with the description \<open>"x "\<close> creates a task
  with the title \<open>"Walk"\<close> and the description \<open>"x"\<close>.
\<close>

theorem create_round_trip_counterexample:
  "length (js '' Walk'') = 5 \<and> length (trim (js '' Walk'')) = 4 \<and> length (js ''x '') = 2
   \<and> map title (tasks (snd (snd (handleSubmit (handleCreateTask (backend_api (js ''t1'')) (Some (js ''alice'')))
        (\<lparr>title_f = js '' Walk'', description_f = js ''x '', localError = None\<rparr>,
         (initial_env alice_backend, alice_dashboard))))))
     = [js ''Walk'', js ''Buy milk'']
   \<and> map description (tasks (snd (snd (handleSubmit (handleCreateTask (backend_api (js ''t1'')) (Some (js ''alice'')))
        (\<lparr>title_f = js '' Walk'', description_f = js ''x '', localError = None\<rparr>,
         (initial_env alice_backend, alice_dashboard))))))
     = [Some (js ''x''), None]
   \<and> js ''Walk'' \<noteq> js '' Walk'' \<and> js ''x'' \<noteq> js ''x ''"
  by (simp add: handleSubmit_def handleCreateTask_def invoke_def backend_api_def backend_create_def
      alice_backend_def alice_dashboard_def initial_env_def initial_dashboard_def milk_def
      present_def truthy_def or_null_def js_def trim_def trim_start_def trim_end_def
      is_white_space_def task.truncate_def decimal.simps Let_def)

end
